theory Spec2Isabelle
  imports Complex_Main
begin

section \<open>Message protocol (src/lib/preview/messages.ts)\<close>

text \<open>
  A message is an arbitrary JavaScript value (\<open>message: any\<close>). A number is the
  rational value of a finite double; NaN and the infinities are left out.
\<close>

datatype jsval =
    JUndefined
  | JNull
  | JBoolean bool
  | JNumber rat
  | JString string
  | JObject "(string \<times> jsval) list"

fun js_typeof :: "jsval \<Rightarrow> string" where
  "js_typeof JUndefined = ''undefined''"
| "js_typeof JNull = ''object''"
| "js_typeof (JBoolean b) = ''boolean''"
| "js_typeof (JNumber q) = ''number''"
| "js_typeof (JString s) = ''string''"
| "js_typeof (JObject fs) = ''object''"

text \<open>\<open>!message\<close>: the values that convert to \<open>false\<close>.\<close>

fun js_not :: "jsval \<Rightarrow> bool" where
  "js_not JUndefined = True"
| "js_not JNull = True"
| "js_not (JBoolean b) = (\<not> b)"
| "js_not (JNumber q) = (q = 0)"
| "js_not (JString s) = (s = [])"
| "js_not (JObject fs) = False"

text \<open>Property access \<open>message.name\<close>: a missing property reads as \<open>undefined\<close>.\<close>

fun get_prop :: "jsval \<Rightarrow> string \<Rightarrow> jsval" where
  "get_prop (JObject fs) name = (case map_of fs name of Some v \<Rightarrow> v | None \<Rightarrow> JUndefined)"
| "get_prop v name = JUndefined"

definition isExtensionToWebviewMessage :: "jsval \<Rightarrow> bool" where
  "isExtensionToWebviewMessage message =
     (if js_not message \<or> js_typeof message \<noteq> ''object'' then False
      else if get_prop message ''type'' = JString ''update''
        then js_typeof (get_prop message ''html'') = ''string''
      else if get_prop message ''type'' = JString ''error''
        then js_typeof (get_prop message ''message'') = ''string''
      else if get_prop message ''type'' = JString ''scrollFromEditor''
        then js_typeof (get_prop message ''percent'') = ''number''
           \<and> js_typeof (get_prop message ''line'') = ''number''
      else if get_prop message ''type'' = JString ''config''
        then js_typeof (get_prop message ''markdownStyle'') = ''string''
           \<and> js_typeof (get_prop message ''codeTheme'') = ''string''
      else False)"

definition isWebviewToExtensionMessage :: "jsval \<Rightarrow> bool" where
  "isWebviewToExtensionMessage message =
     (if js_not message \<or> js_typeof message \<noteq> ''object'' then False
      else if get_prop message ''type'' = JString ''ready''
        then True
      else if get_prop message ''type'' = JString ''scroll''
        then js_typeof (get_prop message ''percent'') = ''number''
           \<and> (get_prop message ''line'' = JUndefined \<or> js_typeof (get_prop message ''line'') = ''number'')
      else if get_prop message ''type'' = JString ''openExternal''
        then js_typeof (get_prop message ''url'') = ''string''
      else if get_prop message ''type'' = JString ''error''
        then js_typeof (get_prop message ''message'') = ''string''
      else if get_prop message ''type'' = JString ''changeMarkdownStyle''
        then js_typeof (get_prop message ''style'') = ''string''
      else if get_prop message ''type'' = JString ''changeCodeTheme''
        then js_typeof (get_prop message ''theme'') = ''string''
      else False)"

definition createUpdateMessage :: "string \<Rightarrow> jsval" where
  "createUpdateMessage h = JObject [(''type'', JString ''update''), (''html'', JString h)]"

definition createErrorMessage :: "string \<Rightarrow> jsval" where
  "createErrorMessage msg = JObject [(''type'', JString ''error''), (''message'', JString msg)]"

definition createScrollFromEditorMessage :: "rat \<Rightarrow> rat \<Rightarrow> jsval" where
  "createScrollFromEditorMessage percent line =
     JObject [(''type'', JString ''scrollFromEditor''), (''percent'', JNumber percent), (''line'', JNumber line)]"

definition createConfigMessage :: "string \<Rightarrow> string \<Rightarrow> jsval" where
  "createConfigMessage style theme =
     JObject [(''type'', JString ''config''), (''markdownStyle'', JString style), (''codeTheme'', JString theme)]"

subsection \<open>The protocol table of the specification\<close>

text \<open>
  The required-field shapes, kind by kind, as the protocol table lists them. The table's
  \<open>scrollFromSource\<close> travels under the wire name \<open>scrollFromEditor\<close>. The two
  parameters say what the table asks of a scroll fraction and of a line: the table itself
  asks for a fraction in \<open>[0, 1]\<close> towards the surface and for an integer line.
\<close>

definition is_string :: "jsval \<Rightarrow> bool" where
  "is_string v = (case v of JString s \<Rightarrow> True | _ \<Rightarrow> False)"

definition number_such :: "(rat \<Rightarrow> bool) \<Rightarrow> jsval \<Rightarrow> bool" where
  "number_such ok v = (case v of JNumber q \<Rightarrow> ok q | _ \<Rightarrow> False)"

definition is_integer :: "rat \<Rightarrow> bool" where
  "is_integer q = (of_int \<lfloor>q\<rfloor> = q)"

definition unit_interval :: "rat \<Rightarrow> bool" where
  "unit_interval q = (0 \<le> q \<and> q \<le> 1)"

definition any_number :: "rat \<Rightarrow> bool" where
  "any_number q = True"

fun shape_to_surface :: "(rat \<Rightarrow> bool) \<Rightarrow> (rat \<Rightarrow> bool) \<Rightarrow> jsval \<Rightarrow> bool" where
  "shape_to_surface percent_ok line_ok (JObject fs) =
     (let m = JObject fs in
        (get_prop m ''type'' = JString ''update'' \<and> is_string (get_prop m ''html''))
      \<or> (get_prop m ''type'' = JString ''error'' \<and> is_string (get_prop m ''message''))
      \<or> (get_prop m ''type'' = JString ''scrollFromEditor''
           \<and> number_such percent_ok (get_prop m ''percent'') \<and> number_such line_ok (get_prop m ''line''))
      \<or> (get_prop m ''type'' = JString ''config''
           \<and> is_string (get_prop m ''markdownStyle'') \<and> is_string (get_prop m ''codeTheme'')))"
| "shape_to_surface percent_ok line_ok v = False"

fun shape_to_orchestrator :: "(rat \<Rightarrow> bool) \<Rightarrow> jsval \<Rightarrow> bool" where
  "shape_to_orchestrator line_ok (JObject fs) =
     (let m = JObject fs in
        get_prop m ''type'' = JString ''ready''
      \<or> (get_prop m ''type'' = JString ''scroll''
           \<and> number_such any_number (get_prop m ''percent'')
           \<and> (get_prop m ''line'' = JUndefined \<or> number_such line_ok (get_prop m ''line'')))
      \<or> (get_prop m ''type'' = JString ''openExternal'' \<and> is_string (get_prop m ''url''))
      \<or> (get_prop m ''type'' = JString ''error'' \<and> is_string (get_prop m ''message''))
      \<or> (get_prop m ''type'' = JString ''changeMarkdownStyle'' \<and> is_string (get_prop m ''style''))
      \<or> (get_prop m ''type'' = JString ''changeCodeTheme'' \<and> is_string (get_prop m ''theme'')))"
| "shape_to_orchestrator line_ok v = False"

definition table_shape_to_surface :: "jsval \<Rightarrow> bool" where
  "table_shape_to_surface = shape_to_surface unit_interval is_integer"

definition table_shape_to_orchestrator :: "jsval \<Rightarrow> bool" where
  "table_shape_to_orchestrator = shape_to_orchestrator is_integer"

section \<open>The host: editor, configuration and the effects on them\<close>

text \<open>
  The parts of the editor host the preview code reads and writes. The source compares
  documents as objects (\<open>editor.document !== this.document\<close>); the host keeps one document
  object for each open uri, so the comparison is that of the uris. Calls of \<open>revealRange(\<dots>, AtTop)\<close> are recorded, oldest first,
  by their target line. Messages given to \<open>panel.webview.postMessage\<close>, user
  notifications, console output and opened links are recorded likewise. The texts of
  notifications and log lines are replaced by tags that keep their variable parts.
\<close>

record TextDocument =
  uri :: string
  fileName :: string
  getText :: string
  lineCount :: int

record TextEditor =
  document :: TextDocument
  visibleRanges :: "int list"
  revealedAtTop :: "rat list"

record Config =
  markdownStyle :: string
  codeTheme :: string
  customCss :: string
  enableFootnoteLinks :: bool
  openLinksInNewWindow :: bool
  enableScrollSync :: bool

datatype notification =
    ErrorPreviewUpdateFailed string
  | ErrorFromPreview string
  | ErrorChangeStyleFailed string
  | ErrorChangeThemeFailed string
  | WarningStyle string

datatype log_entry =
    WarnInvalidMessage jsval
  | WarnUnknownMessageType jsval
  | WarnSlowRender int bool int
  | ErrorUpdateFailed string
  | ErrorStyleChange string
  | ErrorThemeChange string

record Host =
  activeTextEditor :: "TextEditor option"
  configuration :: Config
  configUpdateError :: "string option"
  panelTitle :: string
  posted :: "jsval list"
  notifications :: "notification list"
  console :: "log_entry list"
  openedExternal :: "string list"

section \<open>Double-precision arithmetic\<close>

text \<open>
  JavaScript multiplies and divides in IEEE 754 double precision: the result is the exact
  result rounded to 53 significant bits, ties to the even significand. \<open>double_round\<close>
  is that rounding on the rationals, with an unbounded exponent (no overflow to infinity
  and no subnormal numbers): the scroll code multiplies a fraction by a line count and
  divides pixel offsets below \<open>2 ^ 53\<close>, and clamps what it floors.
  \<open>binade a\<close> is the \<open>e\<close> with \<open>2 ^ e \<le> a < 2 ^ (e + 1)\<close> for positive \<open>a\<close>.
\<close>

function log2_floor :: "int \<Rightarrow> int" where
  "log2_floor n = (if n < 2 then 0 else 1 + log2_floor (n div 2))"
  by pat_completeness auto
termination
  by (relation "measure nat") auto

definition pow2 :: "int \<Rightarrow> rat" where
  "pow2 e = (if 0 \<le> e then 2 ^ nat e else 1 / 2 ^ nat (- e))"

definition binade :: "rat \<Rightarrow> int" where
  "binade a =
     (let d = log2_floor (fst (quotient_of a)) - log2_floor (snd (quotient_of a))
      in if pow2 d \<le> a then d else d - 1)"

definition round_half_even :: "rat \<Rightarrow> int" where
  "round_half_even m =
     (let f = \<lfloor>m\<rfloor>; r = m - of_int f
      in if r < 1 / 2 then f else if 1 / 2 < r then f + 1 else if even f then f else f + 1)"

definition double_round :: "rat \<Rightarrow> rat" where
  "double_round q =
     (if q = 0 then 0
      else (let ulp = pow2 (binade \<bar>q\<bar> - 52)
            in sgn q * of_int (round_half_even (\<bar>q\<bar> / ulp)) * ulp))"

section \<open>Scroll synchronisation on the extension side (src/lib/preview/scroll-sync.ts)\<close>

text \<open>
  A pending \<open>setTimeout\<close> is its deadline on the millisecond clock. \<open>scrollTimeout\<close> is
  the pending debounce timer, if any; \<open>webviewResetTimers\<close> are the pending timers that
  reset \<open>isScrollingFromWebview\<close>, in creation order: nothing ever clears them.
\<close>

record ScrollSyncManager =
  isScrollingFromEditor :: bool
  isScrollingFromWebview :: bool
  scrollTimeout :: "int option"
  webviewResetTimers :: "int list"
  managedDocument :: TextDocument

definition new_ScrollSyncManager :: "TextDocument \<Rightarrow> ScrollSyncManager" where
  "new_ScrollSyncManager doc =
     \<lparr> isScrollingFromEditor = False, isScrollingFromWebview = False,
       scrollTimeout = None, webviewResetTimers = [], managedDocument = doc \<rparr>"

text \<open>The listener on \<open>onDidChangeTextEditorVisibleRanges\<close>.\<close>

definition editorScrollListener :: "Host \<Rightarrow> ScrollSyncManager \<Rightarrow> int \<Rightarrow> ScrollSyncManager" where
  "editorScrollListener host mgr now =
     (case activeTextEditor host of
        None \<Rightarrow> mgr
      | Some editor \<Rightarrow>
          if uri (document editor) \<noteq> uri (managedDocument mgr) then mgr
          else if isScrollingFromWebview mgr then mgr
          else if \<not> enableScrollSync (configuration host) then mgr
          else mgr\<lparr>isScrollingFromEditor := True, scrollTimeout := Some (now + 100)\<rparr>)"

definition syncWebviewScroll :: "Host \<Rightarrow> TextEditor \<Rightarrow> Host" where
  "syncWebviewScroll host editor =
     (case visibleRanges editor of
        [] \<Rightarrow> host
      | firstVisibleLine # others \<Rightarrow>
          (let totalLines = lineCount (document editor);
               scrollPercent = (if totalLines > 1
                                then double_round (of_int firstVisibleLine / of_int (totalLines - 1))
                                else 0)
           in host\<lparr>posted := posted host
                      @ [createScrollFromEditorMessage scrollPercent (of_int firstVisibleLine)]\<rparr>))"

text \<open>
  The debounce timer's callback. The closure holds the editor that was active when the
  listener ran; here it is the host's active editor, the same object as long as the active
  editor has not changed in the 100 ms between.
\<close>

definition scrollTimeout_fired :: "Host \<Rightarrow> ScrollSyncManager \<Rightarrow> Host \<times> ScrollSyncManager" where
  "scrollTimeout_fired host mgr =
     ((case activeTextEditor host of None \<Rightarrow> host | Some editor \<Rightarrow> syncWebviewScroll host editor),
      mgr\<lparr>isScrollingFromEditor := False, scrollTimeout := None\<rparr>)"

text \<open>
  The target line of \<open>handleWebviewScroll\<close>: the supplied line, or
  \<open>Math.floor(percent * (totalLines - 1))\<close> with the product in double precision, then
  \<open>Math.max(0, Math.min(targetLine, lineCount - 1))\<close>.
\<close>

definition targetLine_of :: "rat \<Rightarrow> rat option \<Rightarrow> int \<Rightarrow> rat" where
  "targetLine_of percent line totalLines =
     (let targetLine = (case line of
                          Some l \<Rightarrow> l
                        | None \<Rightarrow> of_int \<lfloor>double_round (percent * of_int (totalLines - 1))\<rfloor>)
      in max 0 (min targetLine (of_int (totalLines - 1))))"

definition handleWebviewScroll ::
    "Host \<Rightarrow> ScrollSyncManager \<Rightarrow> int \<Rightarrow> rat \<Rightarrow> rat option \<Rightarrow> Host \<times> ScrollSyncManager" where
  "handleWebviewScroll host mgr now percent line =
     (case activeTextEditor host of
        None \<Rightarrow> (host, mgr)
      | Some editor \<Rightarrow>
          if uri (document editor) \<noteq> uri (managedDocument mgr) then (host, mgr)
          else if \<not> enableScrollSync (configuration host) then (host, mgr)
          else if isScrollingFromEditor mgr then (host, mgr)
          else
            (let targetLine = targetLine_of percent line (lineCount (document editor))
             in (host\<lparr>activeTextEditor :=
                        Some (editor\<lparr>revealedAtTop := revealedAtTop editor @ [targetLine]\<rparr>)\<rparr>,
                 mgr\<lparr>isScrollingFromWebview := True,
                     webviewResetTimers := webviewResetTimers mgr @ [now + 150]\<rparr>)))"

definition webviewReset_fired :: "ScrollSyncManager \<Rightarrow> int \<Rightarrow> ScrollSyncManager" where
  "webviewReset_fired mgr deadline =
     mgr\<lparr>isScrollingFromWebview := False,
         webviewResetTimers := remove1 deadline (webviewResetTimers mgr)\<rparr>"

section \<open>Render cache (src/lib/preview/cache.ts)\<close>

text \<open>
  JavaScript numbers that hold counts, byte sizes and millisecond clock readings are
  modelled as unbounded integers. A string is a list of characters and its length is the
  number of its code units. \<open>Date.now()\<close> is an input: every operation that reads the
  clock takes the reading as an argument.
\<close>

record CacheEntry =
  html :: string
  timestamp :: int
  accessCount :: int
  lastAccess :: int

text \<open>
  The \<open>Map\<close> of the class is an association list in iteration order with distinct keys:
  a new key goes to the end, an existing key keeps its place when its value is replaced.
\<close>

type_synonym entries = "(string \<times> CacheEntry) list"

record RenderCache =
  cache :: entries
  maxSize :: int
  ttl :: int
  maxMemorySize :: int
  currentMemorySize :: int

record RenderCacheOptions =
  opt_maxSize :: "int option"
  opt_ttl :: "int option"
  opt_maxMemorySize :: "int option"

fun map_set :: "string \<Rightarrow> CacheEntry \<Rightarrow> entries \<Rightarrow> entries" where
  "map_set k v [] = [(k, v)]"
| "map_set k v ((k', v') # es) = (if k' = k then (k, v) # es else (k', v') # map_set k v es)"

definition map_delete :: "string \<Rightarrow> entries \<Rightarrow> entries" where
  "map_delete k es = filter (\<lambda>p. fst p \<noteq> k) es"

definition map_size :: "entries \<Rightarrow> int" where
  "map_size es = int (length es)"

definition new_RenderCache :: "RenderCacheOptions \<Rightarrow> RenderCache" where
  "new_RenderCache options =
     \<lparr> cache = [],
       maxSize = (case opt_maxSize options of Some n \<Rightarrow> n | None \<Rightarrow> 100),
       ttl = (case opt_ttl options of Some n \<Rightarrow> n | None \<Rightarrow> 5 * 60 * 1000),
       maxMemorySize = (case opt_maxMemorySize options of Some n \<Rightarrow> n | None \<Rightarrow> 50 * 1024 * 1024),
       currentMemorySize = 0 \<rparr>"

definition estimateSize :: "string \<Rightarrow> int" where
  "estimateSize str = int (length str) * 2 + 100"

definition cache_get :: "RenderCache \<Rightarrow> string \<Rightarrow> int \<Rightarrow> string option \<times> RenderCache" where
  "cache_get c key now =
     (case map_of (cache c) key of
        None \<Rightarrow> (None, c)
      | Some entry \<Rightarrow>
          if now - timestamp entry > ttl c
          then (None, c\<lparr>cache := map_delete key (cache c)\<rparr>)
          else (Some (html entry),
                c\<lparr>cache := map_set key
                     (entry\<lparr>accessCount := accessCount entry + 1, lastAccess := now\<rparr>) (cache c)\<rparr>))"

definition cache_has :: "RenderCache \<Rightarrow> string \<Rightarrow> int \<Rightarrow> bool \<times> RenderCache" where
  "cache_has c key now =
     (case map_of (cache c) key of
        None \<Rightarrow> (False, c)
      | Some entry \<Rightarrow>
          if now - timestamp entry > ttl c
          then (False, c\<lparr>cache := map_delete key (cache c)\<rparr>)
          else (True, c))"

definition cache_delete :: "RenderCache \<Rightarrow> string \<Rightarrow> RenderCache" where
  "cache_delete c key =
     (case map_of (cache c) key of
        None \<Rightarrow> c
      | Some entry \<Rightarrow>
          c\<lparr>currentMemorySize := currentMemorySize c - estimateSize (html entry),
            cache := map_delete key (cache c)\<rparr>)"

definition cache_clear :: "RenderCache \<Rightarrow> RenderCache" where
  "cache_clear c = c\<lparr>cache := [], currentMemorySize := 0\<rparr>"

text \<open>
  \<open>cleanExpired\<close> walks the entries; deleting the entry under the iterator does not
  disturb a \<open>Map\<close> iteration, so the loop visits the entries present at its start.
\<close>

definition cleanExpired_step :: "int \<Rightarrow> string \<times> CacheEntry \<Rightarrow> int \<times> RenderCache \<Rightarrow> int \<times> RenderCache" where
  "cleanExpired_step now p acc =
     (case acc of (count, c) \<Rightarrow>
        if now - timestamp (snd p) > ttl c
        then (count + 1,
              c\<lparr>currentMemorySize := currentMemorySize c - estimateSize (html (snd p)),
                cache := map_delete (fst p) (cache c)\<rparr>)
        else (count, c))"

definition cleanExpired :: "RenderCache \<Rightarrow> int \<Rightarrow> int \<times> RenderCache" where
  "cleanExpired c now = fold (cleanExpired_step now) (cache c) (0, c)"

text \<open>
  The scan of \<open>evictLeastRecentlyUsed\<close>: \<open>lruTime\<close> starts at positive infinity, which is
  \<open>None\<close> here, and the comparison is strict, so among equal stamps the first entry in
  iteration order stays selected.
\<close>

definition lru_step :: "string \<times> CacheEntry \<Rightarrow> string option \<times> int option \<Rightarrow> string option \<times> int option" where
  "lru_step p acc =
     (case acc of (lruKey, lruTime) \<Rightarrow>
        if (case lruTime of None \<Rightarrow> True | Some t \<Rightarrow> lastAccess (snd p) < t)
        then (Some (fst p), Some (lastAccess (snd p)))
        else (lruKey, lruTime))"

definition lru_scan :: "entries \<Rightarrow> string option" where
  "lru_scan es = fst (fold lru_step es (None, None))"

text \<open>
  \<open>if (lruKey)\<close> tests truthiness: it fails for \<open>undefined\<close> and for the empty string.
\<close>

definition evictLeastRecentlyUsed :: "RenderCache \<Rightarrow> RenderCache" where
  "evictLeastRecentlyUsed c =
     (case lru_scan (cache c) of
        None \<Rightarrow> c
      | Some lruKey \<Rightarrow>
          if lruKey = [] then c
          else (case map_of (cache c) lruKey of
                  None \<Rightarrow> c
                | Some entry \<Rightarrow>
                    c\<lparr>currentMemorySize := currentMemorySize c - estimateSize (html entry),
                      cache := map_delete lruKey (cache c)\<rparr>))"

text \<open>
  The \<open>while\<close> loop of \<open>set\<close>. It may run forever, so it is a partial function: \<open>None\<close>
  is a loop that never exits. \<open>Some (False, c)\<close> is the early return on an empty cache,
  \<open>Some (True, c)\<close> the normal exit.
\<close>

partial_function (option) evict_loop :: "RenderCache \<Rightarrow> int \<Rightarrow> (bool \<times> RenderCache) option" where
  "evict_loop c htmlSize =
     (if map_size (cache c) \<ge> maxSize c \<or> currentMemorySize c + htmlSize > maxMemorySize c
      then (if map_size (cache c) = 0 then Some (False, c)
            else evict_loop (evictLeastRecentlyUsed c) htmlSize)
      else Some (True, c))"

text \<open>
  What a call of \<open>set\<close> did: the two early returns log a warning, the normal path stores.
\<close>

datatype set_outcome = Stored | SkippedOversized | SkippedNoRoom

text \<open>
  The size test \<open>htmlSize > maxMemorySize * 0.2\<close> is the integer test
  \<open>5 * htmlSize > maxMemorySize\<close>.
\<close>

definition cache_set :: "RenderCache \<Rightarrow> string \<Rightarrow> string \<Rightarrow> int \<Rightarrow> (set_outcome \<times> RenderCache) option" where
  "cache_set c key h now =
     (let htmlSize = estimateSize h in
      if 5 * htmlSize > maxMemorySize c then Some (SkippedOversized, c)
      else
        (case evict_loop c htmlSize of
           None \<Rightarrow> None
         | Some (False, c1) \<Rightarrow> Some (SkippedNoRoom, c1)
         | Some (True, c1) \<Rightarrow>
             (let c2 = (case map_of (cache c1) key of
                          Some oldEntry \<Rightarrow>
                            c1\<lparr>currentMemorySize := currentMemorySize c1 - estimateSize (html oldEntry)\<rparr>
                        | None \<Rightarrow> c1)
              in Some (Stored,
                       c2\<lparr>cache := map_set key
                              \<lparr>html = h, timestamp = now, accessCount = 1, lastAccess = now\<rparr> (cache c2),
                          currentMemorySize := currentMemorySize c2 + htmlSize\<rparr>))))"

text \<open>The snapshot of \<open>getStats\<close>, without the floating-point \<open>memoryUsagePercent\<close>.\<close>

record CacheStats =
  stat_size :: int
  stat_maxSize :: int
  stat_ttl :: int
  memorySize :: int
  stat_maxMemorySize :: int

definition getStats :: "RenderCache \<Rightarrow> CacheStats" where
  "getStats c =
     \<lparr> stat_size = map_size (cache c),
       stat_maxSize = maxSize c,
       stat_ttl = ttl c,
       memorySize = currentMemorySize c,
       stat_maxMemorySize = maxMemorySize c \<rparr>"

declare evict_loop.simps [code]


subsection \<open>Sequences of cache operations\<close>

text \<open>
  One public operation of the cache together with the clock reading it sees. A sequence
  stops (\<open>None\<close>) where a call of \<open>set\<close> does not return.
\<close>

datatype cache_op =
    OpSet string string
  | OpGet string
  | OpHas string
  | OpDelete string
  | OpClear
  | OpCleanExpired

fun apply_op :: "RenderCache \<Rightarrow> int \<times> cache_op \<Rightarrow> RenderCache option" where
  "apply_op c (now, OpSet key h) = map_option snd (cache_set c key h now)"
| "apply_op c (now, OpGet key) = Some (snd (cache_get c key now))"
| "apply_op c (now, OpHas key) = Some (snd (cache_has c key now))"
| "apply_op c (now, OpDelete key) = Some (cache_delete c key)"
| "apply_op c (now, OpClear) = Some (cache_clear c)"
| "apply_op c (now, OpCleanExpired) = Some (snd (cleanExpired c now))"

fun run_ops :: "RenderCache \<Rightarrow> (int \<times> cache_op) list \<Rightarrow> RenderCache option" where
  "run_ops c [] = Some c"
| "run_ops c (x # xs) = (case apply_op c x of None \<Rightarrow> None | Some c' \<Rightarrow> run_ops c' xs)"

subsection \<open>Example caches and runs\<close>

text \<open>A small cache (two entries, 100 ms, 1000 bytes) and a run over every operation.\<close>

definition demo_options :: RenderCacheOptions where
  "demo_options = \<lparr> opt_maxSize = Some 2, opt_ttl = Some 100, opt_maxMemorySize = Some 1000 \<rparr>"

definition demo_ops :: "(int \<times> cache_op) list" where
  "demo_ops =
     [(0, OpSet ''k1'' ''<h1>Test 1</h1>''), (10, OpSet ''k2'' ''<h1>Test 2</h1>''),
      (20, OpGet ''k1''), (30, OpSet ''k3'' ''<h1>Test 3</h1>''), (40, OpHas ''k2''),
      (150, OpGet ''k1''), (160, OpDelete ''k3''), (170, OpCleanExpired), (180, OpClear)]"



text \<open>
  A run of \<open>set\<close> calls on fresh keys: each insertion is a key, the html stored under it
  and the clock reading of the call.
\<close>

type_synonym insertion = "string \<times> string \<times> int"

definition ins_key :: "insertion \<Rightarrow> string" where
  "ins_key x = fst x"

definition ins_html :: "insertion \<Rightarrow> string" where
  "ins_html x = fst (snd x)"

definition ins_now :: "insertion \<Rightarrow> int" where
  "ins_now x = snd (snd x)"

definition entry_of :: "insertion \<Rightarrow> string \<times> CacheEntry" where
  "entry_of x = (ins_key x, \<lparr>html = ins_html x, timestamp = ins_now x, accessCount = 1, lastAccess = ins_now x\<rparr>)"

definition as_set_op :: "insertion \<Rightarrow> int \<times> cache_op" where
  "as_set_op x = (ins_now x, OpSet (ins_key x) (ins_html x))"

definition total_size :: "insertion list \<Rightarrow> int" where
  "total_size xs = sum_list (map (\<lambda>x. estimateSize (ins_html x)) xs)"

text \<open>Capacity six under a 500-byte ceiling, and seven empty documents of 100 bytes each.\<close>

definition tight_options :: RenderCacheOptions where
  "tight_options = \<lparr> opt_maxSize = Some 6, opt_ttl = None, opt_maxMemorySize = Some 500 \<rparr>"

definition seven_insertions :: "insertion list" where
  "seven_insertions =
     [(''a'', [], 1), (''b'', [], 2), (''c'', [], 3), (''d'', [], 4), (''e'', [], 5), (''f'', [], 6), (''g'', [], 7)]"

text \<open>
  The eviction test of the repository on the cache of capacity two: two insertions, then a
  \<open>get\<close> of the first key, which makes the second key the least recently used.
\<close>

definition two_insertions :: "insertion list" where
  "two_insertions = [(''key1'', ''<h1>Test 1</h1>'', 0), (''key2'', ''<h1>Test 2</h1>'', 10)]"

definition read_ops :: "(int \<times> cache_op) list" where
  "read_ops = map as_set_op two_insertions @ [(20, OpGet ''key1'')]"

definition recently_read :: RenderCache where
  "recently_read =
     \<lparr> cache =
         [(''key1'', \<lparr>html = ''<h1>Test 1</h1>'', timestamp = 0, accessCount = 2, lastAccess = 20\<rparr>),
          (''key2'', \<lparr>html = ''<h1>Test 2</h1>'', timestamp = 10, accessCount = 1, lastAccess = 10\<rparr>)],
       maxSize = 2, ttl = 100, maxMemorySize = 1000, currentMemorySize = 260 \<rparr>"

text \<open>What the seven insertions leave behind.\<close>

definition five_left :: RenderCache where
  "five_left =
     \<lparr> cache =
         [(''c'', \<lparr>html = [], timestamp = 3, accessCount = 1, lastAccess = 3\<rparr>),
          (''d'', \<lparr>html = [], timestamp = 4, accessCount = 1, lastAccess = 4\<rparr>),
          (''e'', \<lparr>html = [], timestamp = 5, accessCount = 1, lastAccess = 5\<rparr>),
          (''f'', \<lparr>html = [], timestamp = 6, accessCount = 1, lastAccess = 6\<rparr>),
          (''g'', \<lparr>html = [], timestamp = 7, accessCount = 1, lastAccess = 7\<rparr>)],
       maxSize = 6, ttl = 300000, maxMemorySize = 500, currentMemorySize = 500 \<rparr>"

definition one_entry_options :: RenderCacheOptions where
  "one_entry_options = \<lparr> opt_maxSize = Some 1, opt_ttl = None, opt_maxMemorySize = None \<rparr>"

text \<open>The cache after \<open>set('', 'a')\<close> at time 0 on a fresh cache of capacity one.\<close>

definition empty_key_cache :: RenderCache where
  "empty_key_cache =
     \<lparr> cache = [([], \<lparr>html = ''a'', timestamp = 0, accessCount = 1, lastAccess = 0\<rparr>)],
       maxSize = 1, ttl = 300000, maxMemorySize = 52428800, currentMemorySize = 102 \<rparr>"

text \<open>A cache holding one entry written at time 0, with a time-to-live of 100 ms.\<close>

definition stale_cache :: RenderCache where
  "stale_cache =
     \<lparr> cache = [(''k1'', \<lparr>html = ''<h1>Test 1</h1>'', timestamp = 0, accessCount = 1, lastAccess = 0\<rparr>)],
       maxSize = 100, ttl = 100, maxMemorySize = 1000, currentMemorySize = 130 \<rparr>"

text \<open>A roomy cache holding one four-character entry.\<close>

definition overwrite_cache :: RenderCache where
  "overwrite_cache =
     \<lparr> cache = [(''k'', \<lparr>html = ''aaaa'', timestamp = 0, accessCount = 1, lastAccess = 0\<rparr>)],
       maxSize = 100, ttl = 100, maxMemorySize = 1000, currentMemorySize = 108 \<rparr>"





section \<open>Preview provider (the MarkdownPreviewProvider class)\<close>

text \<open>
  The Markdown engine and the SHA-256 digest of \<open>generateKey\<close> are collaborators outside
  this development: they are parameters. A render either fails with a message (\<open>Inl\<close>) or
  returns html (\<open>Inr\<close>), and may have logged a style or theme warning on the way.
\<close>

record MarkdownEngineOptions =
  markdown :: string
  optMarkdownStyle :: string
  optCodeTheme :: string
  optCustomCss :: string
  optEnableFootnoteLinks :: bool
  optOpenLinksInNewWindow :: bool
  platform :: string

record RenderResult =
  styleWarning :: "string option"
  outcome :: "string + string"

record Collaborators =
  generateKey :: "MarkdownEngineOptions \<Rightarrow> string"
  render :: "MarkdownEngineOptions \<Rightarrow> RenderResult"

text \<open>The four readings of \<open>Date.now()\<close> during one \<open>doUpdatePreview\<close>.\<close>

record Clock =
  tStart :: int
  tGet :: int
  tSet :: int
  tEnd :: int

text \<open>
  \<open>panel\<close> says whether the webview panel exists; its title and the messages posted to
  it are kept in the host. \<open>updateTimeout\<close> is the deadline of the pending debounce
  timer, if one is pending.
\<close>

record MarkdownPreviewProvider =
  panel :: bool
  currentDocument :: "TextDocument option"
  updateTimeout :: "int option"
  providerCache :: RenderCache
  scrollSyncManager :: "ScrollSyncManager option"
  cacheCleanupInterval :: bool

definition engineOptions :: "Host \<Rightarrow> TextDocument \<Rightarrow> MarkdownEngineOptions" where
  "engineOptions host doc =
     \<lparr> markdown = getText doc,
       optMarkdownStyle = markdownStyle (configuration host),
       optCodeTheme = codeTheme (configuration host),
       optCustomCss = customCss (configuration host),
       optEnableFootnoteLinks = enableFootnoteLinks (configuration host),
       optOpenLinksInNewWindow = openLinksInNewWindow (configuration host),
       platform = ''html'' \<rparr>"

definition postUpdate :: "Clock \<Rightarrow> bool \<Rightarrow> int \<Rightarrow> string \<Rightarrow> Host \<Rightarrow> Host" where
  "postUpdate clk cacheHit markdownLength h host =
     host\<lparr>posted := posted host @ [createUpdateMessage h],
          console := console host @
            (if tEnd clk - tStart clk > 200
             then [WarnSlowRender (tEnd clk - tStart clk) cacheHit markdownLength] else [])\<rparr>"

text \<open>\<open>if (!html)\<close>: a missing entry and a cached empty string both count as a miss.\<close>

definition truthy_html :: "string option \<Rightarrow> string option" where
  "truthy_html found = (case found of Some h \<Rightarrow> (if h = [] then None else Some h) | None \<Rightarrow> None)"

definition doUpdatePreview ::
    "Collaborators \<Rightarrow> Clock \<Rightarrow> Host \<Rightarrow> MarkdownPreviewProvider \<Rightarrow> (Host \<times> MarkdownPreviewProvider) option" where
  "doUpdatePreview co clk host pr =
     (if \<not> panel pr then Some (host, pr)
      else case currentDocument pr of
        None \<Rightarrow> Some (host, pr)
      | Some doc \<Rightarrow>
          (let options = engineOptions host doc;
               cacheKey = generateKey co options;
               looked = cache_get (providerCache pr) cacheKey (tGet clk);
               pr1 = pr\<lparr>providerCache := snd looked\<rparr>
           in case truthy_html (fst looked) of
                Some h \<Rightarrow> Some (postUpdate clk True (int (length (markdown options))) h host, pr1)
              | None \<Rightarrow>
                  (case outcome (render co options) of
                     Inl errorMessage \<Rightarrow>
                       Some (host\<lparr>console := console host @ [ErrorUpdateFailed errorMessage],
                                  posted := posted host @ [createErrorMessage errorMessage],
                                  notifications := notifications host @ [ErrorPreviewUpdateFailed errorMessage]\<rparr>,
                             pr1)
                   | Inr h \<Rightarrow>
                       (let host1 = (case styleWarning (render co options) of
                                       Some w \<Rightarrow> host\<lparr>notifications := notifications host @ [WarningStyle w]\<rparr>
                                     | None \<Rightarrow> host)
                        in case cache_set (providerCache pr1) cacheKey h (tSet clk) of
                             None \<Rightarrow> None
                           | Some stored \<Rightarrow>
                               Some (postUpdate clk False (int (length (markdown options))) h host1,
                                     pr1\<lparr>providerCache := snd stored\<rparr>)))))"

definition updatePreview ::
    "MarkdownPreviewProvider \<Rightarrow> int \<Rightarrow> TextDocument option \<Rightarrow> MarkdownPreviewProvider" where
  "updatePreview pr now doc =
     (if (case doc of
            Some d \<Rightarrow> (case currentDocument pr of Some cur \<Rightarrow> uri d \<noteq> uri cur | None \<Rightarrow> False)
          | None \<Rightarrow> False)
      then pr
      else if \<not> panel pr \<or> currentDocument pr = None then pr
      else pr\<lparr>updateTimeout := Some (now + 100)\<rparr>)"

text \<open>The callback of the debounce timer: the timer is no longer pending, then the update runs.\<close>

definition updateTimeout_fired ::
    "Collaborators \<Rightarrow> Clock \<Rightarrow> Host \<Rightarrow> MarkdownPreviewProvider \<Rightarrow> (Host \<times> MarkdownPreviewProvider) option" where
  "updateTimeout_fired co clk host pr = doUpdatePreview co clk host (pr\<lparr>updateTimeout := None\<rparr>)"

text \<open>
  \<open>switchDocument\<close>: the old scroll manager is disposed and replaced by a fresh one for the
  new document. The panel title is the file name (its fixed prefix is left out).
\<close>

definition switchDocument ::
    "Collaborators \<Rightarrow> Clock \<Rightarrow> Host \<Rightarrow> MarkdownPreviewProvider \<Rightarrow> TextDocument
       \<Rightarrow> (Host \<times> MarkdownPreviewProvider) option" where
  "switchDocument co clk host pr doc =
     (if \<not> panel pr then Some (host, pr)
      else doUpdatePreview co clk
             (host\<lparr>panelTitle := fileName doc\<rparr>)
             (pr\<lparr>currentDocument := Some doc,
                 scrollSyncManager := Some (new_ScrollSyncManager doc)\<rparr>))"

definition sendCurrentConfig :: "Host \<Rightarrow> MarkdownPreviewProvider \<Rightarrow> Host" where
  "sendCurrentConfig host pr =
     (if \<not> panel pr then host
      else host\<lparr>posted := posted host
                 @ [createConfigMessage (markdownStyle (configuration host)) (codeTheme (configuration host))]\<rparr>)"

definition handleChangeMarkdownStyle :: "Host \<Rightarrow> string \<Rightarrow> Host" where
  "handleChangeMarkdownStyle host style =
     (case configUpdateError host of
        None \<Rightarrow> host\<lparr>configuration := (configuration host)\<lparr>markdownStyle := style\<rparr>\<rparr>
      | Some errorMessage \<Rightarrow>
          host\<lparr>console := console host @ [ErrorStyleChange errorMessage],
               notifications := notifications host @ [ErrorChangeStyleFailed errorMessage]\<rparr>)"

definition handleChangeCodeTheme :: "Host \<Rightarrow> string \<Rightarrow> Host" where
  "handleChangeCodeTheme host theme =
     (case configUpdateError host of
        None \<Rightarrow> host\<lparr>configuration := (configuration host)\<lparr>codeTheme := theme\<rparr>\<rparr>
      | Some errorMessage \<Rightarrow>
          host\<lparr>console := console host @ [ErrorThemeChange errorMessage],
               notifications := notifications host @ [ErrorChangeThemeFailed errorMessage]\<rparr>)"

text \<open>
  \<open>handleWebviewMessage\<close>. After the validator has accepted a message its fields have the
  types the branches below take apart; the remaining \<open>case\<close> alternatives cannot occur.
\<close>

definition handleWebviewMessage ::
    "Collaborators \<Rightarrow> Clock \<Rightarrow> int \<Rightarrow> Host \<Rightarrow> MarkdownPreviewProvider \<Rightarrow> jsval
       \<Rightarrow> (Host \<times> MarkdownPreviewProvider) option" where
  "handleWebviewMessage co clk now host pr message =
     (if \<not> isWebviewToExtensionMessage message
      then Some (host\<lparr>console := console host @ [WarnInvalidMessage message]\<rparr>, pr)
      else if get_prop message ''type'' = JString ''ready''
        then doUpdatePreview co clk (sendCurrentConfig host pr) pr
      else if get_prop message ''type'' = JString ''scroll''
        then (case scrollSyncManager pr of
                None \<Rightarrow> Some (host, pr)
              | Some mgr \<Rightarrow>
                  (case get_prop message ''percent'' of
                     JNumber percent \<Rightarrow>
                       (let line = (case get_prop message ''line'' of JNumber l \<Rightarrow> Some l | _ \<Rightarrow> None);
                            moved = handleWebviewScroll host mgr now percent line
                        in Some (fst moved, pr\<lparr>scrollSyncManager := Some (snd moved)\<rparr>))
                   | _ \<Rightarrow> Some (host, pr)))
      else if get_prop message ''type'' = JString ''openExternal''
        then (case get_prop message ''url'' of
                JString url \<Rightarrow> Some (host\<lparr>openedExternal := openedExternal host @ [url]\<rparr>, pr)
              | _ \<Rightarrow> Some (host, pr))
      else if get_prop message ''type'' = JString ''error''
        then (case get_prop message ''message'' of
                JString msg \<Rightarrow> Some (host\<lparr>notifications := notifications host @ [ErrorFromPreview msg]\<rparr>, pr)
              | _ \<Rightarrow> Some (host, pr))
      else if get_prop message ''type'' = JString ''changeMarkdownStyle''
        then (case get_prop message ''style'' of
                JString style \<Rightarrow> Some (handleChangeMarkdownStyle host style, pr)
              | _ \<Rightarrow> Some (host, pr))
      else if get_prop message ''type'' = JString ''changeCodeTheme''
        then (case get_prop message ''theme'' of
                JString theme \<Rightarrow> Some (handleChangeCodeTheme host theme, pr)
              | _ \<Rightarrow> Some (host, pr))
      else Some (host\<lparr>console := console host @ [WarnUnknownMessageType (get_prop message ''type'')]\<rparr>, pr))"

section \<open>The script of the rendering surface (src/lib/preview/webview-content.ts)\<close>

subsection \<open>Incremental update of the preview tree\<close>

text \<open>
  A DOM node is an element (tag, attributes in order, children), a text node or a comment.
  Parsing html into nodes (the \<open>innerHTML\<close> setter) and serialising nodes (the getter)
  belong to the browser: they are parameters.
\<close>

datatype node =
    Element string "(string \<times> string) list" "node list"
  | TextNode string
  | CommentNode string

record HtmlCodec =
  parseHTML :: "string \<Rightarrow> node list"
  serializeHTML :: "node list \<Rightarrow> string"

fun setAttribute :: "string \<Rightarrow> string \<Rightarrow> (string \<times> string) list \<Rightarrow> (string \<times> string) list" where
  "setAttribute name v [] = [(name, v)]"
| "setAttribute name v ((n, w) # attrs) =
     (if n = name then (name, v) # attrs else (n, w) # setAttribute name v attrs)"

text \<open>The first loop of the element case: attributes the new node lacks are removed.\<close>

definition removeOldAttributes :: "(string \<times> string) list \<Rightarrow> (string \<times> string) list \<Rightarrow> (string \<times> string) list" where
  "removeOldAttributes fromAttrs toAttrs = filter (\<lambda>attr. map_of toAttrs (fst attr) \<noteq> None) fromAttrs"

text \<open>The second loop: each attribute of the new node is set unless it already has that value.\<close>

definition updateAttribute :: "string \<times> string \<Rightarrow> (string \<times> string) list \<Rightarrow> (string \<times> string) list" where
  "updateAttribute attr attrs =
     (if map_of attrs (fst attr) \<noteq> Some (snd attr) then setAttribute (fst attr) (snd attr) attrs else attrs)"

definition morphAttributes :: "(string \<times> string) list \<Rightarrow> (string \<times> string) list \<Rightarrow> (string \<times> string) list" where
  "morphAttributes fromAttrs toAttrs = fold updateAttribute toAttrs (removeOldAttributes fromAttrs toAttrs)"

text \<open>
  \<open>morphDom from to\<close> returns the node that stands in the place of \<open>from\<close> afterwards.
  Nodes of different type: \<open>from\<close> is replaced by a copy of \<open>to\<close>. The three loops over the
  children pair them by position, append copies of the surplus new children, and remove
  the surplus old ones: that is \<open>morphChildren\<close>.
\<close>

fun morphDom :: "HtmlCodec \<Rightarrow> node \<Rightarrow> node \<Rightarrow> node"
  and morphChildren :: "HtmlCodec \<Rightarrow> node list \<Rightarrow> node list \<Rightarrow> node list" where
  "morphDom cd (Element fromTag fromAttrs fromChildren) (Element toTag toAttrs toChildren) =
     (if \<bar>int (length fromChildren) - int (length toChildren)\<bar> > 10
      then Element fromTag (morphAttributes fromAttrs toAttrs)
             (parseHTML cd (serializeHTML cd toChildren))
      else Element fromTag (morphAttributes fromAttrs toAttrs)
             (morphChildren cd fromChildren toChildren))"
| "morphDom cd (TextNode fromValue) (TextNode toValue) = TextNode toValue"
| "morphDom cd (CommentNode fromValue) (CommentNode toValue) = CommentNode fromValue"
| "morphDom cd fromNode toNode = toNode"
| "morphChildren cd (f # fs) (t # ts) = morphDom cd f t # morphChildren cd fs ts"
| "morphChildren cd [] ts = ts"
| "morphChildren cd fs [] = []"

text \<open>
  \<open>updatePreviewContent\<close> on the preview element. \<open>changeRatio > 0.5\<close> is
  \<open>2 * lengthDiff > max oldLength newLength\<close> on the integer lengths (for two empty strings
  the ratio is not a number and the comparison false, as here). The temporary container
  is a fresh \<open>div\<close> without attributes.
\<close>

fun updatePreviewContent :: "HtmlCodec \<Rightarrow> node \<Rightarrow> string \<Rightarrow> node" where
  "updatePreviewContent cd (Element tag attrs children) h =
     (let temp = Element ''div'' [] (parseHTML cd h) in
      if children = [] then Element tag attrs (parseHTML cd h)
      else
        (let oldLength = int (length (serializeHTML cd children));
             newLength = int (length h);
             lengthDiff = \<bar>newLength - oldLength\<bar>
         in if 2 * lengthDiff > max oldLength newLength
            then Element tag attrs (parseHTML cd h)
            else morphDom cd (Element tag attrs children) temp))"
| "updatePreviewContent cd other h = other"

text \<open>The preview element of the page, \<open><div id="preview"></div>\<close>.\<close>

definition initial_preview :: node where
  "initial_preview = Element ''div'' [(''id'', ''preview'')] []"

text \<open>
  The browser's parser and serialiser on text without markup: a non-empty string is one
  text node, and text nodes serialise to their text.
\<close>

fun text_of_node :: "node \<Rightarrow> string" where
  "text_of_node (TextNode s) = s"
| "text_of_node other = []"

definition plain_text_codec :: HtmlCodec where
  "plain_text_codec =
     \<lparr> parseHTML = (\<lambda>s. if s = [] then [] else [TextNode s]),
       serializeHTML = (\<lambda>ns. concat (map text_of_node ns)) \<rparr>"

subsection \<open>Scroll handling on the surface\<close>

text \<open>
  The scroll state of the script: its flag, the pending debounce timer, the pending
  timers that reset the flag (in creation order; nothing clears them), the geometry of
  the container and the messages given to \<open>vscode.postMessage\<close>. The heights are whole
  numbers of pixels, so their difference \<open>maxScroll\<close> is exact.
\<close>

record Surface =
  previewRoot :: node
  surfaceScrollingFromEditor :: bool
  surfaceScrollTimeout :: "int option"
  surfaceResetTimers :: "int list"
  scrollTop :: rat
  scrollHeight :: rat
  clientHeight :: rat
  outbox :: "jsval list"

text \<open>The \<open>scroll\<close> listener of the container.\<close>

definition containerScrollListener :: "Surface \<Rightarrow> int \<Rightarrow> Surface" where
  "containerScrollListener s now =
     (if surfaceScrollingFromEditor s then s
      else s\<lparr>surfaceScrollTimeout := Some (now + 100)\<rparr>)"

definition surfaceScrollTimeout_fired :: "Surface \<Rightarrow> Surface" where
  "surfaceScrollTimeout_fired s =
     (let maxScroll = scrollHeight s - clientHeight s;
          scrollPercent = (if maxScroll > 0 then double_round (scrollTop s / maxScroll) else 0)
      in s\<lparr>surfaceScrollTimeout := None,
            outbox := outbox s @ [JObject [(''type'', JString ''scroll''), (''percent'', JNumber scrollPercent)]]\<rparr>)"

text \<open>
  \<open>handleScrollFromEditor\<close>. Assigning \<open>scrollTop\<close> keeps the value inside
  \<open>[0, maxScroll]\<close>, as the DOM does.
\<close>

definition handleScrollFromEditor :: "Surface \<Rightarrow> int \<Rightarrow> rat \<Rightarrow> jsval \<Rightarrow> Surface" where
  "handleScrollFromEditor s now percent line =
     (let maxScroll = scrollHeight s - clientHeight s;
          targetScroll = double_round (percent * maxScroll)
      in s\<lparr>surfaceScrollingFromEditor := True,
            scrollTop := max 0 (min targetScroll (max 0 maxScroll)),
            surfaceResetTimers := surfaceResetTimers s @ [now + 150]\<rparr>)"

definition surfaceReset_fired :: "Surface \<Rightarrow> int \<Rightarrow> Surface" where
  "surfaceReset_fired s deadline =
     s\<lparr>surfaceScrollingFromEditor := False,
       surfaceResetTimers := remove1 deadline (surfaceResetTimers s)\<rparr>"

text \<open>
  The \<open>message\<close> listener of the window: it switches on \<open>message.type\<close> and calls
  the handler, without calling the validator. \<open>handleUpdate\<close> patches the preview with an
  html string and \<open>handleScrollFromEditor\<close> scrolls by a numeric fraction; payloads of
  other types, which the extension's message constructors never produce, and the error
  banner and style selectors of the two remaining kinds are not part of this state.
\<close>

definition surface_onMessage :: "HtmlCodec \<Rightarrow> Surface \<Rightarrow> int \<Rightarrow> jsval \<Rightarrow> Surface" where
  "surface_onMessage cd s now message =
     (if get_prop message ''type'' = JString ''update''
        then (case get_prop message ''html'' of
                JString h \<Rightarrow> s\<lparr>previewRoot := updatePreviewContent cd (previewRoot s) h\<rparr>
              | _ \<Rightarrow> s)
      else if get_prop message ''type'' = JString ''scrollFromEditor''
        then (case get_prop message ''percent'' of
                JNumber percent \<Rightarrow> handleScrollFromEditor s now percent (get_prop message ''line'')
              | _ \<Rightarrow> s)
      else s)"

section \<open>Both sides together\<close>

text \<open>
  The extension and the surface run as two event loops joined by message passing. A run
  is a list of timed events: a user scroll of the editor (to a first visible line), a
  \<open>scroll\<close> event raised on the surface's container, a change of the height of the
  surface's content (an image finishes loading), or one of the four kinds of pending timer
  firing at its deadline. An event is possible only when no pending timer is overdue;
  a timer event is possible only for a timer pending with that deadline. An impossible run
  is \<open>None\<close>. A posted message is delivered to the other side at once.
\<close>

record World =
  worldHost :: Host
  worldProvider :: MarkdownPreviewProvider
  worldSurface :: Surface

datatype event =
    EditorScrolled int
  | EditorDebounceFires
  | WebviewResetFires
  | ContainerScrolled
  | ContentHeightChanged rat
  | SurfaceDebounceFires
  | SurfaceResetFires

definition pendingDeadlines :: "World \<Rightarrow> int list" where
  "pendingDeadlines w =
     (case scrollSyncManager (worldProvider w) of
        None \<Rightarrow> []
      | Some mgr \<Rightarrow> (case scrollTimeout mgr of None \<Rightarrow> [] | Some d \<Rightarrow> [d]) @ webviewResetTimers mgr)
     @ (case surfaceScrollTimeout (worldSurface w) of None \<Rightarrow> [] | Some d \<Rightarrow> [d])
     @ surfaceResetTimers (worldSurface w)"

definition instant :: "int \<Rightarrow> Clock" where
  "instant t = \<lparr> tStart = t, tGet = t, tSet = t, tEnd = t \<rparr>"

text \<open>Deliver to the surface the messages the extension posted during a step.\<close>

definition deliverToSurface :: "HtmlCodec \<Rightarrow> int \<Rightarrow> Host \<Rightarrow> Host \<Rightarrow> Surface \<Rightarrow> Surface" where
  "deliverToSurface cd now before after s =
     fold (\<lambda>message s'. surface_onMessage cd s' now message)
       (drop (length (posted before)) (posted after)) s"

text \<open>Deliver to the extension the messages the surface posted during a step.\<close>

fun deliverToExtension ::
    "Collaborators \<Rightarrow> int \<Rightarrow> jsval list \<Rightarrow> Host \<times> MarkdownPreviewProvider
       \<Rightarrow> (Host \<times> MarkdownPreviewProvider) option" where
  "deliverToExtension co now [] hp = Some hp"
| "deliverToExtension co now (message # rest) hp =
     (case handleWebviewMessage co (instant now) now (fst hp) (snd hp) message of
        None \<Rightarrow> None
      | Some hp' \<Rightarrow> deliverToExtension co now rest hp')"

definition world_step :: "Collaborators \<Rightarrow> HtmlCodec \<Rightarrow> World \<Rightarrow> int \<times> event \<Rightarrow> World option" where
  "world_step co cd w timed =
     (let now = fst timed; host = worldHost w; pr = worldProvider w; s = worldSurface w in
      if \<not> list_all (\<lambda>d. now \<le> d) (pendingDeadlines w) then None
      else case snd timed of
        EditorScrolled firstVisibleLine \<Rightarrow>
          (case activeTextEditor host of
             None \<Rightarrow> None
           | Some editor \<Rightarrow>
               (let host1 = host\<lparr>activeTextEditor := Some (editor\<lparr>visibleRanges := [firstVisibleLine]\<rparr>)\<rparr>
                in Some (w\<lparr>worldHost := host1,
                           worldProvider := pr\<lparr>scrollSyncManager :=
                             map_option (\<lambda>mgr. editorScrollListener host1 mgr now) (scrollSyncManager pr)\<rparr>\<rparr>)))
      | EditorDebounceFires \<Rightarrow>
          (case scrollSyncManager pr of
             None \<Rightarrow> None
           | Some mgr \<Rightarrow>
               if scrollTimeout mgr \<noteq> Some now then None
               else (let fired = scrollTimeout_fired host mgr
                     in Some (w\<lparr>worldHost := fst fired,
                                worldProvider := pr\<lparr>scrollSyncManager := Some (snd fired)\<rparr>,
                                worldSurface := deliverToSurface cd now host (fst fired) s\<rparr>)))
      | WebviewResetFires \<Rightarrow>
          (case scrollSyncManager pr of
             None \<Rightarrow> None
           | Some mgr \<Rightarrow>
               if now \<notin> set (webviewResetTimers mgr) then None
               else Some (w\<lparr>worldProvider := pr\<lparr>scrollSyncManager := Some (webviewReset_fired mgr now)\<rparr>\<rparr>))
      | ContainerScrolled \<Rightarrow> Some (w\<lparr>worldSurface := containerScrollListener s now\<rparr>)
      | ContentHeightChanged height \<Rightarrow> Some (w\<lparr>worldSurface := s\<lparr>scrollHeight := height\<rparr>\<rparr>)
      | SurfaceDebounceFires \<Rightarrow>
          if surfaceScrollTimeout s \<noteq> Some now then None
          else (let s1 = surfaceScrollTimeout_fired s
                in case deliverToExtension co now (drop (length (outbox s)) (outbox s1)) (host, pr) of
                     None \<Rightarrow> None
                   | Some hp \<Rightarrow> Some (w\<lparr>worldHost := fst hp, worldProvider := snd hp, worldSurface := s1\<rparr>))
      | SurfaceResetFires \<Rightarrow>
          if now \<notin> set (surfaceResetTimers s) then None
          else Some (w\<lparr>worldSurface := surfaceReset_fired s now\<rparr>))"

fun world_run :: "Collaborators \<Rightarrow> HtmlCodec \<Rightarrow> World \<Rightarrow> (int \<times> event) list \<Rightarrow> World option" where
  "world_run co cd w [] = Some w"
| "world_run co cd w (e # es) =
     (case world_step co cd w e of None \<Rightarrow> None | Some w' \<Rightarrow> world_run co cd w' es)"

section \<open>Example states\<close>

text \<open>A 101-line document open in the active editor, with the default settings.\<close>

definition long_document :: TextDocument where
  "long_document = \<lparr> uri = ''file:///notes.md'', fileName = ''notes.md'', getText = ''# Hello'', lineCount = 101 \<rparr>"

definition default_config :: Config where
  "default_config =
     \<lparr> markdownStyle = ''ayu-light'', codeTheme = ''kimbie-light'', customCss = [],
       enableFootnoteLinks = True, openLinksInNewWindow = True, enableScrollSync = True \<rparr>"

definition quiet_host :: Host where
  "quiet_host =
     \<lparr> activeTextEditor = Some \<lparr> document = long_document, visibleRanges = [0], revealedAtTop = [] \<rparr>,
       configuration = default_config, configUpdateError = None, panelTitle = ''notes.md'',
       posted = [], notifications = [], console = [], openedExternal = [] \<rparr>"

text \<open>
  Three messages: a \<open>scrollFromEditor\<close> with fraction 7 and line 3/2, a well-formed
  \<open>scroll\<close> from the surface, and a \<open>scroll\<close> whose fraction is a string.
\<close>

definition stray_scroll_message :: jsval where
  "stray_scroll_message =
     JObject [(''type'', JString ''scrollFromEditor''), (''percent'', JNumber 7), (''line'', JNumber (3 / 2))]"

definition surface_scroll_message :: jsval where
  "surface_scroll_message = JObject [(''type'', JString ''scroll''), (''percent'', JNumber (1 / 2))]"

definition malformed_scroll_message :: jsval where
  "malformed_scroll_message = JObject [(''type'', JString ''scroll''), (''percent'', JString ''half'')]"

text \<open>
  A provider with its panel open on the 101-line document, an empty cache with the
  settings the provider's constructor passes, and no timer pending.
\<close>

definition idle_provider :: MarkdownPreviewProvider where
  "idle_provider =
     \<lparr> panel = True, currentDocument = Some long_document, updateTimeout = None,
       providerCache = new_RenderCache \<lparr> opt_maxSize = Some 100, opt_ttl = Some 300000, opt_maxMemorySize = Some 52428800 \<rparr>,
       scrollSyncManager = Some (new_ScrollSyncManager long_document), cacheCleanupInterval = True \<rparr>"

text \<open>
  Stand-ins for the collaborators: a key that spells out the text and the options, and a
  renderer that wraps the text in a paragraph.
\<close>

definition demo_collaborators :: Collaborators where
  "demo_collaborators =
     \<lparr> generateKey = (\<lambda>options. ''sha:'' @ markdown options @ ''|'' @ optMarkdownStyle options
                                  @ ''|'' @ optCodeTheme options @ ''|'' @ optCustomCss options),
       render = (\<lambda>options. \<lparr> styleWarning = None, outcome = Inr (''<p>'' @ markdown options @ ''</p>'') \<rparr>) \<rparr>"

text \<open>A second document to switch to.\<close>

definition other_document :: TextDocument where
  "other_document = \<lparr> uri = ''file:///todo.md'', fileName = ''todo.md'', getText = ''- item'', lineCount = 1 \<rparr>"

text \<open>
  A surface of height 1000 showing content of height 3000, and a run in which the editor
  is scrolled twice, 140 ms apart; in a variant of its second part the content grows to
  height 5000 while the surface's debounce timer is pending.
\<close>

definition initial_surface :: Surface where
  "initial_surface =
     \<lparr> previewRoot = initial_preview, surfaceScrollingFromEditor = False,
       surfaceScrollTimeout = None, surfaceResetTimers = [],
       scrollTop = 0, scrollHeight = 3000, clientHeight = 1000, outbox = [] \<rparr>"

definition initial_world :: World where
  "initial_world = \<lparr> worldHost = quiet_host, worldProvider = idle_provider, worldSurface = initial_surface \<rparr>"

definition first_scroll_and_echo :: "(int \<times> event) list" where
  "first_scroll_and_echo =
     [(0, EditorScrolled 20), (100, EditorDebounceFires), (116, ContainerScrolled)]"

definition second_scroll_and_echo :: "(int \<times> event) list" where
  "second_scroll_and_echo =
     [(140, EditorScrolled 50), (240, EditorDebounceFires), (250, SurfaceResetFires),
      (256, ContainerScrolled), (356, SurfaceDebounceFires)]"

text \<open>The movements of the source view: the lines revealed at the top, oldest first.\<close>

definition second_scroll_echo_and_growth :: "(int \<times> event) list" where
  "second_scroll_echo_and_growth =
     [(140, EditorScrolled 50), (240, EditorDebounceFires), (250, SurfaceResetFires),
      (256, ContainerScrolled), (300, ContentHeightChanged 5000), (356, SurfaceDebounceFires)]"

definition source_movements :: "World \<Rightarrow> rat list" where
  "source_movements w = (case activeTextEditor (worldHost w) of None \<Rightarrow> [] | Some editor \<Rightarrow> revealedAtTop editor)"

section \<open>Properties of the render cache\<close>

lemma estimateSize_pos: "100 \<le> estimateSize s"
  by (simp add: estimateSize_def)


lemma map_set_fresh: "k \<notin> fst ` set es \<Longrightarrow> map_set k v es = es @ [(k, v)]"
  by (induction es) auto

lemma estimateSize_nonneg [simp]: "0 \<le> estimateSize s"
  by (simp add: estimateSize_def)

lemma evict_memory_le: "currentMemorySize (evictLeastRecentlyUsed c) \<le> currentMemorySize c"
  by (auto simp: evictLeastRecentlyUsed_def split: option.splits)

lemma evict_frame:
  "maxMemorySize (evictLeastRecentlyUsed c) = maxMemorySize c"
  "maxSize (evictLeastRecentlyUsed c) = maxSize c"
  "ttl (evictLeastRecentlyUsed c) = ttl c"
  by (auto simp: evictLeastRecentlyUsed_def split: option.splits)

lemma evict_loop_post:
  assumes "evict_loop c hs = Some r"
  shows "currentMemorySize (snd r) \<le> currentMemorySize c \<and>
         maxMemorySize (snd r) = maxMemorySize c \<and> maxSize (snd r) = maxSize c \<and> ttl (snd r) = ttl c \<and>
         (fst r \<longrightarrow> currentMemorySize (snd r) + hs \<le> maxMemorySize c \<and> map_size (cache (snd r)) < maxSize c)"
proof (rule evict_loop.raw_induct [where P = "\<lambda>c hs r. currentMemorySize (snd r) \<le> currentMemorySize c \<and>
         maxMemorySize (snd r) = maxMemorySize c \<and> maxSize (snd r) = maxSize c \<and> ttl (snd r) = ttl c \<and>
         (fst r \<longrightarrow> currentMemorySize (snd r) + hs \<le> maxMemorySize c \<and> map_size (cache (snd r)) < maxSize c)", OF _ assms])
  fix f c hs r
  assume IH: "\<And>c hs r. f c hs = Some r \<Longrightarrow> currentMemorySize (snd r) \<le> currentMemorySize c \<and>
         maxMemorySize (snd r) = maxMemorySize c \<and> maxSize (snd r) = maxSize c \<and> ttl (snd r) = ttl c \<and>
         (fst r \<longrightarrow> currentMemorySize (snd r) + hs \<le> maxMemorySize c \<and> map_size (cache (snd r)) < maxSize c)"
    and body: "(if maxSize c \<le> map_size (cache c) \<or> maxMemorySize c < currentMemorySize c + hs
                  then if map_size (cache c) = 0 then Some (False, c)
                       else f (evictLeastRecentlyUsed c) hs
                  else Some (True, c)) = Some r"
  show "currentMemorySize (snd r) \<le> currentMemorySize c \<and>
         maxMemorySize (snd r) = maxMemorySize c \<and> maxSize (snd r) = maxSize c \<and> ttl (snd r) = ttl c \<and>
         (fst r \<longrightarrow> currentMemorySize (snd r) + hs \<le> maxMemorySize c \<and> map_size (cache (snd r)) < maxSize c)"
  proof (cases "maxSize c \<le> map_size (cache c) \<or> maxMemorySize c < currentMemorySize c + hs")
    case False
    with body show ?thesis by auto
  next
    case True
    show ?thesis
    proof (cases "map_size (cache c) = 0")
      case True
      with body \<open>maxSize c \<le> map_size (cache c) \<or> maxMemorySize c < currentMemorySize c + hs\<close>
      show ?thesis by auto
    next
      case False
      with body True have "f (evictLeastRecentlyUsed c) hs = Some r" by simp
      from IH [OF this] evict_memory_le [of c] show ?thesis
        by (simp add: evict_frame)
    qed
  qed
qed

lemma cache_set_post:
  assumes "cache_set c key h now = Some (out, c')"
  shows "maxMemorySize c' = maxMemorySize c \<and> maxSize c' = maxSize c \<and> ttl c' = ttl c \<and>
         (currentMemorySize c \<le> maxMemorySize c \<longrightarrow> currentMemorySize c' \<le> maxMemorySize c)"
proof (cases "5 * estimateSize h > maxMemorySize c")
  case True
  with assms show ?thesis by (simp add: cache_set_def)
next
  case False
  with assms obtain b c1 where loop: "evict_loop c (estimateSize h) = Some (b, c1)"
    by (auto simp: cache_set_def Let_def split: option.splits)
  note post = evict_loop_post [OF loop]
  show ?thesis
  proof (cases b)
    case False
    with assms \<open>\<not> 5 * estimateSize h > maxMemorySize c\<close> loop have "c' = c1"
      by (simp add: cache_set_def Let_def)
    with post show ?thesis by auto
  next
    case True
    show ?thesis
    proof (cases "map_of (cache c1) key")
      case None
      with True assms \<open>\<not> 5 * estimateSize h > maxMemorySize c\<close> loop post show ?thesis
        by (auto simp: cache_set_def Let_def)
    next
      case (Some old)
      with True assms \<open>\<not> 5 * estimateSize h > maxMemorySize c\<close> loop post
        estimateSize_pos [of "html old"]
      show ?thesis
        by (auto simp: cache_set_def Let_def)
    qed
  qed
qed

lemma cache_get_memory: "currentMemorySize (snd (cache_get c key now)) = currentMemorySize c"
  by (simp add: cache_get_def split: option.splits)

lemma cache_get_frame:
  "maxMemorySize (snd (cache_get c key now)) = maxMemorySize c"
  by (simp add: cache_get_def split: option.splits)

lemma cache_has_memory: "currentMemorySize (snd (cache_has c key now)) = currentMemorySize c"
  by (simp add: cache_has_def split: option.splits)

lemma cache_has_frame:
  "maxMemorySize (snd (cache_has c key now)) = maxMemorySize c"
  by (simp add: cache_has_def split: option.splits)

lemma cache_delete_memory_le:
  "currentMemorySize (cache_delete c key) \<le> currentMemorySize c \<and>
   maxMemorySize (cache_delete c key) = maxMemorySize c"
  by (simp add: cache_delete_def split: option.splits)

lemma cleanExpired_step_pair:
  "cleanExpired_step now p (n, c) =
     (if now - timestamp (snd p) > ttl c
      then (n + 1, c\<lparr>currentMemorySize := currentMemorySize c - estimateSize (html (snd p)),
                     cache := map_delete (fst p) (cache c)\<rparr>)
      else (n, c))"
  by (simp add: cleanExpired_step_def)

lemma cleanExpired_fold:
  "currentMemorySize (snd (fold (cleanExpired_step now) es (n, c))) =
     currentMemorySize c -
       sum_list (map (\<lambda>p. estimateSize (html (snd p))) (filter (\<lambda>p. now - timestamp (snd p) > ttl c) es)) \<and>
   cache (snd (fold (cleanExpired_step now) es (n, c))) =
     filter (\<lambda>q. \<not> (\<exists>p \<in> set es. now - timestamp (snd p) > ttl c \<and> fst p = fst q)) (cache c) \<and>
   fst (fold (cleanExpired_step now) es (n, c)) =
     n + int (length (filter (\<lambda>p. now - timestamp (snd p) > ttl c) es)) \<and>
   maxMemorySize (snd (fold (cleanExpired_step now) es (n, c))) = maxMemorySize c \<and>
   maxSize (snd (fold (cleanExpired_step now) es (n, c))) = maxSize c \<and>
   ttl (snd (fold (cleanExpired_step now) es (n, c))) = ttl c"
proof (induction es arbitrary: n c)
  case Nil
  show ?case by simp
next
  case (Cons p es)
  show ?case
    by (auto simp: cleanExpired_step_pair Cons.IH map_delete_def intro!: filter_cong)
qed

lemma sum_sizes_nonneg: "0 \<le> sum_list (map (\<lambda>p. estimateSize (html (snd p))) es)"
  by (induction es) (auto intro: add_nonneg_nonneg)

lemma cleanExpired_memory_le:
  "currentMemorySize (snd (cleanExpired c now)) \<le> currentMemorySize c \<and>
   maxMemorySize (snd (cleanExpired c now)) = maxMemorySize c"
  using sum_sizes_nonneg [of "filter (\<lambda>p. now - timestamp (snd p) > ttl c) (cache c)"]
  by (simp add: cleanExpired_def cleanExpired_fold)

lemma apply_op_invariant:
  assumes "apply_op c x = Some c'" and "0 \<le> maxMemorySize c"
    and "currentMemorySize c \<le> maxMemorySize c"
  shows "maxMemorySize c' = maxMemorySize c \<and> currentMemorySize c' \<le> maxMemorySize c'"
proof (cases x)
  case (Pair now op)
  show ?thesis
  proof (cases op)
    case (OpSet key h)
    with Pair assms(1) obtain out where "cache_set c key h now = Some (out, c')"
      by (cases "cache_set c key h now") auto
    from cache_set_post [OF this] assms(3) show ?thesis by simp
  next
    case (OpGet key)
    with Pair assms show ?thesis by (auto simp: cache_get_memory cache_get_frame)
  next
    case (OpHas key)
    with Pair assms show ?thesis by (auto simp: cache_has_memory cache_has_frame)
  next
    case (OpDelete key)
    with Pair assms cache_delete_memory_le [of c key] show ?thesis by auto
  next
    case OpClear
    with Pair assms show ?thesis by (auto simp: cache_clear_def)
  next
    case OpCleanExpired
    with Pair assms cleanExpired_memory_le [of c now] show ?thesis by auto
  qed
qed

lemma run_ops_invariant:
  "run_ops c ops = Some c' \<Longrightarrow> 0 \<le> maxMemorySize c \<Longrightarrow> currentMemorySize c \<le> maxMemorySize c \<Longrightarrow>
   maxMemorySize c' = maxMemorySize c \<and> currentMemorySize c' \<le> maxMemorySize c'"
proof (induction ops arbitrary: c)
  case Nil
  then show ?case by simp
next
  case (Cons x xs)
  from Cons.prems(1) obtain c1 where step: "apply_op c x = Some c1" and rest: "run_ops c1 xs = Some c'"
    by (auto split: option.splits)
  from apply_op_invariant [OF step Cons.prems(2,3)]
  have inv1: "maxMemorySize c1 = maxMemorySize c" "currentMemorySize c1 \<le> maxMemorySize c1" by auto
  from Cons.IH [OF rest] inv1 Cons.prems(2) show ?case by simp
qed

lemma evict_loop_stuck:
  assumes "maxSize c \<le> map_size (cache c) \<or> maxMemorySize c < currentMemorySize c + hs"
    and "map_size (cache c) \<noteq> 0" and "evictLeastRecentlyUsed c = c"
  shows "evict_loop c hs = None"
proof (rule ccontr)
  assume "evict_loop c hs \<noteq> None"
  then obtain y where y: "evict_loop c hs = Some y" by auto
  have "\<not> (c = c \<and> hs = hs)"
  proof (rule evict_loop.raw_induct [where P = "\<lambda>c' hs' y'. \<not> (c' = c \<and> hs' = hs)", OF _ y])
    fix f c' hs' y'
    assume IH: "\<And>c'' hs'' y''. f c'' hs'' = Some y'' \<Longrightarrow> \<not> (c'' = c \<and> hs'' = hs)"
      and body: "(if maxSize c' \<le> map_size (cache c') \<or> maxMemorySize c' < currentMemorySize c' + hs'
                  then if map_size (cache c') = 0 then Some (False, c')
                       else f (evictLeastRecentlyUsed c') hs'
                  else Some (True, c')) = Some y'"
    show "\<not> (c' = c \<and> hs' = hs)"
    proof
      assume eq: "c' = c \<and> hs' = hs"
      with body assms have "f c hs = Some y'" by (auto split: if_splits)
      with IH show False by blast
    qed
  qed
  then show False by simp
qed

text \<open>
  C1. Starting from a freshly constructed cache whose memory ceiling is a non-negative
  byte count, after every sequence of \<open>set\<close>, \<open>get\<close>, \<open>has\<close>, \<open>delete\<close>, \<open>clear\<close> and
  \<open>cleanExpired\<close> calls that have returned, the \<open>memorySize\<close> reported by \<open>getStats\<close> is
  at most \<open>maxMemorySize\<close>. Every prefix of a sequence is a sequence, so the bound holds
  at every point of the run.
\<close>

theorem memory_ceiling_respected:
  assumes "0 \<le> maxMemorySize (new_RenderCache options)"
    and "run_ops (new_RenderCache options) ops = Some c"
  shows "memorySize (getStats c) \<le> stat_maxMemorySize (getStats c)"
proof -
  have "currentMemorySize (new_RenderCache options) \<le> maxMemorySize (new_RenderCache options)"
    using assms(1) by (simp add: new_RenderCache_def)
  from run_ops_invariant [OF assms(2) assms(1) this] show ?thesis
    by (simp add: getStats_def)
qed

theorem memory_ceiling_respected_witness:
  "0 \<le> maxMemorySize (new_RenderCache demo_options) \<and>
   (\<exists>c. run_ops (new_RenderCache demo_options) demo_ops = Some c \<and>
        memorySize (getStats c) \<le> stat_maxMemorySize (getStats c))"
proof -
  have ceiling: "0 \<le> maxMemorySize (new_RenderCache demo_options)"
    by (simp add: new_RenderCache_def demo_options_def)
  have "run_ops (new_RenderCache demo_options) demo_ops \<noteq> None"
    unfolding demo_ops_def demo_options_def by code_simp
  then obtain c where run: "run_ops (new_RenderCache demo_options) demo_ops = Some c"
    by auto
  from memory_ceiling_respected [OF ceiling run] ceiling run show ?thesis
    by blast
qed

text \<open>On a fresh cache with room for one entry, an html string within the size limit is stored.\<close>

lemma fresh_set_stores:
  assumes "1 \<le> maxSize (new_RenderCache options)"
    and "5 * estimateSize h \<le> maxMemorySize (new_RenderCache options)"
  shows "\<exists>c'. cache_set (new_RenderCache options) k h now = Some (Stored, c')"
proof -
  from assms estimateSize_pos [of h] have "evict_loop (new_RenderCache options) (estimateSize h) = Some (True, new_RenderCache options)"
    by (subst evict_loop.simps) (auto simp: new_RenderCache_def map_size_def split: option.splits)
  with assms(2) show ?thesis
    by (simp add: cache_set_def Let_def)
qed

subsection \<open>Eviction by least recent access\<close>

lemma lru_fold_first_min:
  "es \<noteq> [] \<Longrightarrow> \<exists>pre p post. es = pre @ p # post \<and>
      fold lru_step es (None, None) = (Some (fst p), Some (lastAccess (snd p))) \<and>
      (\<forall>q\<in>set pre. lastAccess (snd p) < lastAccess (snd q)) \<and>
      (\<forall>q\<in>set post. lastAccess (snd p) \<le> lastAccess (snd q))"
proof (induction es rule: rev_induct)
  case Nil
  then show ?case by simp
next
  case (snoc x es)
  show ?case
  proof (cases "es = []")
    case True
    then have "[x] = [] @ x # [] \<and>
      fold lru_step (es @ [x]) (None, None) = (Some (fst x), Some (lastAccess (snd x)))"
      by (simp add: lru_step_def)
    then show ?thesis using True by fastforce
  next
    case False
    from snoc.IH [OF False] obtain pre p post where dec: "es = pre @ p # post"
      and res: "fold lru_step es (None, None) = (Some (fst p), Some (lastAccess (snd p)))"
      and before: "\<forall>q\<in>set pre. lastAccess (snd p) < lastAccess (snd q)"
      and after: "\<forall>q\<in>set post. lastAccess (snd p) \<le> lastAccess (snd q)"
      by blast
    show ?thesis
    proof (cases "lastAccess (snd x) < lastAccess (snd p)")
      case True
      have "es @ [x] = es @ x # []" by simp
      moreover from res True
      have "fold lru_step (es @ [x]) (None, None) = (Some (fst x), Some (lastAccess (snd x)))"
        by (simp add: lru_step_def)
      moreover from dec before after True
      have "\<forall>q\<in>set es. lastAccess (snd x) < lastAccess (snd q)" by auto
      ultimately show ?thesis by (metis empty_iff list.set(1))
    next
      case False
      have "es @ [x] = pre @ p # (post @ [x])" using dec by simp
      moreover from res False
      have "fold lru_step (es @ [x]) (None, None) = (Some (fst p), Some (lastAccess (snd p)))"
        by (simp add: lru_step_def)
      moreover from after False
      have "\<forall>q\<in>set (post @ [x]). lastAccess (snd p) \<le> lastAccess (snd q)" by auto
      ultimately show ?thesis using before by blast
    qed
  qed
qed

lemma map_of_middle:
  "distinct (map fst (pre @ p # post)) \<Longrightarrow> map_of (pre @ p # post) (fst p) = Some (snd p)"
  by (induction pre) (auto simp: rev_image_eqI)

lemma filter_other_keys: "k \<notin> fst ` set es \<Longrightarrow> filter (\<lambda>q. fst q \<noteq> k) es = es"
  by (induction es) auto

lemma map_delete_middle:
  "distinct (map fst (pre @ p # post)) \<Longrightarrow> map_delete (fst p) (pre @ p # post) = pre @ post"
  by (simp add: map_delete_def filter_other_keys)


lemma total_size_nonneg: "0 \<le> total_size xs"
  unfolding total_size_def by (induction xs) (auto intro: add_nonneg_nonneg simp: estimateSize_def)

lemma total_size_append: "total_size (xs @ ys) = total_size xs + total_size ys"
  by (simp add: total_size_def)

lemma total_size_Cons: "total_size (x # xs) = estimateSize (ins_html x) + total_size xs"
  by (simp add: total_size_def)

lemma evict_loop_room:
  "map_size (cache c) < maxSize c \<Longrightarrow> currentMemorySize c + hs \<le> maxMemorySize c \<Longrightarrow>
   evict_loop c hs = Some (True, c)"
  by (subst evict_loop.simps) simp

lemma keys_entry_of: "fst ` entry_of ` set xs = ins_key ` set xs"
  by (auto simp: entry_of_def image_iff)

lemma map_of_absent: "k \<notin> fst ` set es \<Longrightarrow> map_of es k = None"
  by (simp add: map_of_eq_None_iff)

lemma set_new_key_with_room:
  assumes "map_size (cache c) < maxSize c"
    and "currentMemorySize c + estimateSize (ins_html x) \<le> maxMemorySize c"
    and "5 * estimateSize (ins_html x) \<le> maxMemorySize c"
    and "ins_key x \<notin> fst ` set (cache c)"
  shows "apply_op c (as_set_op x) =
           Some (c\<lparr>cache := cache c @ [entry_of x],
                   currentMemorySize := currentMemorySize c + estimateSize (ins_html x)\<rparr>)"
  using assms
  by (simp add: as_set_op_def cache_set_def Let_def evict_loop_room map_of_absent map_set_fresh entry_of_def)

lemma fill_without_eviction:
  assumes "cache c = map entry_of xs" and "currentMemorySize c = total_size xs"
    and "distinct (map ins_key (xs @ ys))"
    and "int (length (xs @ ys)) \<le> maxSize c"
    and "total_size (xs @ ys) \<le> maxMemorySize c"
    and "\<forall>y\<in>set ys. 5 * estimateSize (ins_html y) \<le> maxMemorySize c"
  shows "run_ops c (map as_set_op ys) =
           Some (c\<lparr>cache := map entry_of (xs @ ys), currentMemorySize := total_size (xs @ ys)\<rparr>)"
  using assms
proof (induction ys arbitrary: xs c)
  case Nil
  then show ?case by simp
next
  case (Cons y ys)
  let ?c1 = "c\<lparr>cache := cache c @ [entry_of y],
                currentMemorySize := currentMemorySize c + estimateSize (ins_html y)\<rparr>"
  have room: "map_size (cache c) < maxSize c"
    using Cons.prems(1,4) by (simp add: map_size_def)
  have "total_size xs + estimateSize (ins_html y) \<le> total_size (xs @ y # ys)"
    using total_size_nonneg [of ys] by (simp add: total_size_append total_size_Cons)
  with Cons.prems(2,5) have mem: "currentMemorySize c + estimateSize (ins_html y) \<le> maxMemorySize c"
    by simp
  have fresh: "ins_key y \<notin> fst ` set (cache c)"
    using Cons.prems(1,3) by (simp add: keys_entry_of)
  have step: "apply_op c (as_set_op y) = Some ?c1"
    using set_new_key_with_room [OF room mem _ fresh] Cons.prems(6) by simp
  have "run_ops ?c1 (map as_set_op ys) =
          Some (?c1\<lparr>cache := map entry_of ((xs @ [y]) @ ys), currentMemorySize := total_size ((xs @ [y]) @ ys)\<rparr>)"
  proof (rule Cons.IH)
    show "cache ?c1 = map entry_of (xs @ [y])" using Cons.prems(1) by simp
    show "currentMemorySize ?c1 = total_size (xs @ [y])"
      using Cons.prems(2) by (simp add: total_size_append total_size_Cons total_size_def)
    show "distinct (map ins_key ((xs @ [y]) @ ys))" using Cons.prems(3) by simp
    show "int (length ((xs @ [y]) @ ys)) \<le> maxSize ?c1" using Cons.prems(4) by simp
    show "total_size ((xs @ [y]) @ ys) \<le> maxMemorySize ?c1" using Cons.prems(5) by simp
    show "\<forall>y\<in>set ys. 5 * estimateSize (ins_html y) \<le> maxMemorySize ?c1" using Cons.prems(6) by simp
  qed
  with step show ?case by simp
qed

lemma set_when_full:
  assumes full: "map_size (cache c) = maxSize c" and "1 \<le> maxSize c"
    and keys: "distinct (map fst (cache c))"
    and fresh: "k \<notin> fst ` set (cache c)"
    and small: "5 * estimateSize h \<le> maxMemorySize c"
  shows "\<exists>pre p post. cache c = pre @ p # post \<and>
      (\<forall>q\<in>set pre. lastAccess (snd p) < lastAccess (snd q)) \<and>
      (\<forall>q\<in>set post. lastAccess (snd p) \<le> lastAccess (snd q)) \<and>
      (fst p \<noteq> [] \<and>
       currentMemorySize c - estimateSize (html (snd p)) + estimateSize h \<le> maxMemorySize c \<longrightarrow>
         cache_set c k h now =
           Some (Stored,
                 c\<lparr>cache := pre @ post @ [(k, \<lparr>html = h, timestamp = now, accessCount = 1, lastAccess = now\<rparr>)],
                   currentMemorySize := currentMemorySize c - estimateSize (html (snd p)) + estimateSize h\<rparr>) \<and>
         map_size (pre @ post @ [(k, \<lparr>html = h, timestamp = now, accessCount = 1, lastAccess = now\<rparr>)])
           = maxSize c)"
proof -
  from full assms(2) have nonempty: "cache c \<noteq> []" by (auto simp: map_size_def)
  from lru_fold_first_min [OF nonempty] obtain pre p post where dec: "cache c = pre @ p # post"
    and res: "fold lru_step (cache c) (None, None) = (Some (fst p), Some (lastAccess (snd p)))"
    and before: "\<forall>q\<in>set pre. lastAccess (snd p) < lastAccess (snd q)"
    and after: "\<forall>q\<in>set post. lastAccess (snd p) \<le> lastAccess (snd q)"
    by blast
  let ?entry = "\<lparr>html = h, timestamp = now, accessCount = 1, lastAccess = now\<rparr>"
  let ?c1 = "c\<lparr>currentMemorySize := currentMemorySize c - estimateSize (html (snd p)), cache := pre @ post\<rparr>"
  have size: "map_size (pre @ post @ [(k, ?entry)]) = maxSize c"
    using dec full by (simp add: map_size_def)
  have stored: "cache_set c k h now =
           Some (Stored,
                 c\<lparr>cache := pre @ post @ [(k, ?entry)],
                   currentMemorySize := currentMemorySize c - estimateSize (html (snd p)) + estimateSize h\<rparr>)"
    if key: "fst p \<noteq> []"
      and mem: "currentMemorySize c - estimateSize (html (snd p)) + estimateSize h \<le> maxMemorySize c"
  proof -
    from res have scan: "lru_scan (cache c) = Some (fst p)" by (simp add: lru_scan_def)
    from dec keys have look: "map_of (cache c) (fst p) = Some (snd p)"
      using map_of_middle by metis
    from dec keys have del: "map_delete (fst p) (cache c) = pre @ post"
      using map_delete_middle by metis
    from scan key look del have ev: "evictLeastRecentlyUsed c = ?c1"
      by (simp add: evictLeastRecentlyUsed_def)
    have size1: "map_size (cache ?c1) < maxSize ?c1" using dec full by (simp add: map_size_def)
    have mem1: "currentMemorySize ?c1 + estimateSize h \<le> maxMemorySize ?c1" using mem by simp
    have "evict_loop c (estimateSize h) = evict_loop ?c1 (estimateSize h)"
      using full nonempty ev assms(2) by (subst evict_loop.simps) (simp add: map_size_def)
    also have "\<dots> = Some (True, ?c1)" by (rule evict_loop_room [OF size1 mem1])
    finally have loop: "evict_loop c (estimateSize h) = Some (True, ?c1)" .
    from fresh dec have fresh1: "k \<notin> fst ` set (pre @ post)" by auto
    from loop small fresh1 show ?thesis
      by (simp add: cache_set_def Let_def map_of_absent map_set_fresh del: map_of_append set_append)
  qed
  from dec before after stored size show ?thesis by blast
qed

text \<open>
  C3, as the code has it. Inserting up to \<open>maxSize\<close> distinct keys into a fresh cache, each
  entry within the per-entry size limit and all of them together within the memory ceiling,
  evicts nothing. In any cache that holds exactly \<open>maxSize \<ge> 1\<close> entries, whatever \<open>set\<close>
  and \<open>get\<close> calls came before, storing a further key within the per-entry limit selects for
  eviction the entry \<open>p\<close> with the least \<open>lastAccess\<close>, the earliest in iteration order
  among equals: every entry before it has a strictly greater stamp, every entry after it a
  greater or equal one. When the memory total without \<open>p\<close> has room for the new entry (and
  the key of \<open>p\<close> is not empty), only \<open>p\<close> is evicted, the survivors keep their order, the
  new entry comes last, and exactly \<open>maxSize\<close> entries are left.
\<close>

theorem count_ceiling_evicts_first_least_recent:
  "(int (length ys) \<le> maxSize (new_RenderCache options) \<and> distinct (map ins_key ys) \<and>
    total_size ys \<le> maxMemorySize (new_RenderCache options) \<and>
    list_all (\<lambda>y. 5 * estimateSize (ins_html y) \<le> maxMemorySize (new_RenderCache options)) ys \<longrightarrow>
      run_ops (new_RenderCache options) (map as_set_op ys) =
        Some ((new_RenderCache options)\<lparr>cache := map entry_of ys, currentMemorySize := total_size ys\<rparr>)) \<and>
   (map_size (cache c) = maxSize c \<and> 1 \<le> maxSize c \<and> distinct (map fst (cache c)) \<and>
    k \<notin> fst ` set (cache c) \<and> 5 * estimateSize h \<le> maxMemorySize c \<longrightarrow>
      (\<exists>pre p post. cache c = pre @ p # post \<and>
         (\<forall>q\<in>set pre. lastAccess (snd p) < lastAccess (snd q)) \<and>
         (\<forall>q\<in>set post. lastAccess (snd p) \<le> lastAccess (snd q)) \<and>
         (fst p \<noteq> [] \<and>
          currentMemorySize c - estimateSize (html (snd p)) + estimateSize h \<le> maxMemorySize c \<longrightarrow>
            cache_set c k h now =
              Some (Stored,
                    c\<lparr>cache := pre @ post @ [(k, \<lparr>html = h, timestamp = now, accessCount = 1, lastAccess = now\<rparr>)],
                      currentMemorySize := currentMemorySize c - estimateSize (html (snd p)) + estimateSize h\<rparr>) \<and>
            map_size (pre @ post @ [(k, \<lparr>html = h, timestamp = now, accessCount = 1, lastAccess = now\<rparr>)])
              = maxSize c)))"
proof -
  let ?c0 = "new_RenderCache options"
  have fill: "run_ops ?c0 (map as_set_op ys) =
        Some (?c0\<lparr>cache := map entry_of ys, currentMemorySize := total_size ys\<rparr>)"
    if "int (length ys) \<le> maxSize ?c0" and "distinct (map ins_key ys)"
      and "total_size ys \<le> maxMemorySize ?c0"
      and "list_all (\<lambda>y. 5 * estimateSize (ins_html y) \<le> maxMemorySize ?c0) ys"
  proof -
    have "run_ops ?c0 (map as_set_op ys) =
        Some (?c0\<lparr>cache := map entry_of ([] @ ys), currentMemorySize := total_size ([] @ ys)\<rparr>)"
    proof (rule fill_without_eviction)
      show "cache ?c0 = map entry_of []" by (simp add: new_RenderCache_def)
      show "currentMemorySize ?c0 = total_size []" by (simp add: new_RenderCache_def total_size_def)
      show "distinct (map ins_key ([] @ ys))" using that(2) by simp
      show "int (length ([] @ ys)) \<le> maxSize ?c0" using that(1) by simp
      show "total_size ([] @ ys) \<le> maxMemorySize ?c0" using that(3) by simp
      show "\<forall>y\<in>set ys. 5 * estimateSize (ins_html y) \<le> maxMemorySize ?c0"
        using that(4) by (simp add: list_all_iff)
    qed
    then show ?thesis by simp
  qed
  from fill set_when_full [of c k h now] show ?thesis by blast
qed

text \<open>
  The claim as stated fails when the memory ceiling binds before the entry count: with
  capacity 6 and a 500-byte ceiling, seven empty documents of 100 estimated bytes each
  (every one exactly at the per-entry limit) leave five entries, not six.
\<close>

theorem memory_ceiling_leaves_fewer_entries:
  "list_all (\<lambda>x. 5 * estimateSize (ins_html x) \<le> maxMemorySize (new_RenderCache tight_options)) seven_insertions \<and>
   distinct (map ins_key seven_insertions) \<and>
   int (length seven_insertions) = maxSize (new_RenderCache tight_options) + 1 \<and>
   run_ops (new_RenderCache tight_options) (map as_set_op seven_insertions) = Some five_left \<and>
   map_size (cache five_left) = 5 \<and> maxSize five_left = 6"
  unfolding tight_options_def seven_insertions_def five_left_def by code_simp

text \<open>
  The repository's eviction test: after \<open>set key1\<close>, \<open>set key2\<close>, \<open>get key1\<close> the cache of
  capacity two is full and \<open>key2\<close>, although created later, has the least \<open>lastAccess\<close>;
  \<open>set key3\<close> evicts it and keeps \<open>key1\<close>.
\<close>

theorem count_ceiling_evicts_first_least_recent_witness:
  "int (length two_insertions) \<le> maxSize (new_RenderCache demo_options) \<and>
   distinct (map ins_key two_insertions) \<and>
   total_size two_insertions \<le> maxMemorySize (new_RenderCache demo_options) \<and>
   list_all (\<lambda>y. 5 * estimateSize (ins_html y) \<le> maxMemorySize (new_RenderCache demo_options)) two_insertions \<and>
   run_ops (new_RenderCache demo_options) (map as_set_op two_insertions) =
     Some ((new_RenderCache demo_options)\<lparr>cache := map entry_of two_insertions,
                                            currentMemorySize := total_size two_insertions\<rparr>) \<and>
   run_ops (new_RenderCache demo_options) read_ops = Some recently_read \<and>
   map_size (cache recently_read) = maxSize recently_read \<and> 1 \<le> maxSize recently_read \<and>
   distinct (map fst (cache recently_read)) \<and> ''key3'' \<notin> fst ` set (cache recently_read) \<and>
   5 * estimateSize ''<h1>Test 3</h1>'' \<le> maxMemorySize recently_read \<and>
   cache_set recently_read ''key3'' ''<h1>Test 3</h1>'' 30 =
     Some (Stored,
           recently_read
             \<lparr>cache :=
                [(''key1'', \<lparr>html = ''<h1>Test 1</h1>'', timestamp = 0, accessCount = 2, lastAccess = 20\<rparr>),
                 (''key3'', \<lparr>html = ''<h1>Test 3</h1>'', timestamp = 30, accessCount = 1, lastAccess = 30\<rparr>)],
              currentMemorySize := 260\<rparr>)"
proof -
  let ?c0 = "new_RenderCache demo_options"
  let ?e1 = "(''key1'', \<lparr>html = ''<h1>Test 1</h1>'', timestamp = 0, accessCount = 2, lastAccess = 20\<rparr>)"
  let ?e2 = "(''key2'', \<lparr>html = ''<h1>Test 2</h1>'', timestamp = 10, accessCount = 1, lastAccess = 10\<rparr>)"
  have f1: "int (length two_insertions) \<le> maxSize ?c0"
    and f2: "distinct (map ins_key two_insertions)"
    and f3: "total_size two_insertions \<le> maxMemorySize ?c0"
    and f4: "list_all (\<lambda>y. 5 * estimateSize (ins_html y) \<le> maxMemorySize ?c0) two_insertions"
    by (simp_all add: new_RenderCache_def demo_options_def two_insertions_def ins_key_def ins_html_def
          estimateSize_def total_size_def)
  note fresh = count_ceiling_evicts_first_least_recent [of two_insertions demo_options]
  from fresh f1 f2 f3 f4 have filled: "run_ops ?c0 (map as_set_op two_insertions) =
     Some (?c0\<lparr>cache := map entry_of two_insertions, currentMemorySize := total_size two_insertions\<rparr>)"
    by blast
  have reach: "run_ops ?c0 read_ops = Some recently_read"
    unfolding read_ops_def two_insertions_def demo_options_def recently_read_def by code_simp
  have g1: "map_size (cache recently_read) = maxSize recently_read" and g2: "1 \<le> maxSize recently_read"
    and g3: "distinct (map fst (cache recently_read))" and g4: "''key3'' \<notin> fst ` set (cache recently_read)"
    and g5: "5 * estimateSize ''<h1>Test 3</h1>'' \<le> maxMemorySize recently_read"
    by (simp_all add: recently_read_def map_size_def estimateSize_def)
  note full = count_ceiling_evicts_first_least_recent
    [of _ _ recently_read "''key3''" "''<h1>Test 3</h1>''" 30]
  from full g1 g2 g3 g4 g5 obtain pre p post where dec: "cache recently_read = pre @ p # post"
    and before: "\<forall>q\<in>set pre. lastAccess (snd p) < lastAccess (snd q)"
    and after: "\<forall>q\<in>set post. lastAccess (snd p) \<le> lastAccess (snd q)"
    and step: "fst p \<noteq> [] \<and>
          currentMemorySize recently_read - estimateSize (html (snd p)) + estimateSize ''<h1>Test 3</h1>''
            \<le> maxMemorySize recently_read \<longrightarrow>
            cache_set recently_read ''key3'' ''<h1>Test 3</h1>'' 30 =
              Some (Stored,
                    recently_read\<lparr>cache := pre @ post @ [(''key3'', \<lparr>html = ''<h1>Test 3</h1>'', timestamp = 30, accessCount = 1, lastAccess = 30\<rparr>)],
                      currentMemorySize := currentMemorySize recently_read - estimateSize (html (snd p)) + estimateSize ''<h1>Test 3</h1>''\<rparr>)"
    by blast
  have cache: "cache recently_read = [?e1, ?e2]" by (simp add: recently_read_def)
  from dec cache have "pre @ p # post = [?e1, ?e2]" by simp
  then consider "pre = [] \<and> p = ?e1 \<and> post = [?e2]" | "pre = [?e1] \<and> p = ?e2 \<and> post = []"
    by (auto simp: append_eq_Cons_conv Cons_eq_append_conv)
  then have victim: "pre = [?e1] \<and> p = ?e2 \<and> post = []"
  proof cases
    case 1
    with after show ?thesis by simp
  next
    case 2
    then show ?thesis .
  qed
  have "fst p \<noteq> [] \<and>
          currentMemorySize recently_read - estimateSize (html (snd p)) + estimateSize ''<h1>Test 3</h1>''
            \<le> maxMemorySize recently_read"
    using victim by (simp add: recently_read_def estimateSize_def)
  with step victim have stored: "cache_set recently_read ''key3'' ''<h1>Test 3</h1>'' 30 =
     Some (Stored,
           recently_read
             \<lparr>cache := [?e1, (''key3'', \<lparr>html = ''<h1>Test 3</h1>'', timestamp = 30, accessCount = 1, lastAccess = 30\<rparr>)],
              currentMemorySize := 260\<rparr>)"
    by (simp add: recently_read_def estimateSize_def)
  from f1 f2 f3 f4 filled reach g1 g2 g3 g4 g5 stored show ?thesis by simp
qed

subsection \<open>When \<open>set\<close> stores\<close>








text \<open>
  C9. \<open>set\<close> does not return from every state: with capacity one and the single entry
  stored under the empty key, the eviction scan selects the empty key, the truthiness test
  on it fails, nothing is evicted and the loop condition never changes. The first call
  below creates that state through the public interface; the second never returns.
\<close>

theorem set_diverges_on_empty_key:
  "cache_set (new_RenderCache one_entry_options) [] ''a'' 0 = Some (Stored, empty_key_cache) \<and>
   cache_set empty_key_cache ''b'' ''c'' 1 = None"
proof -
  have first: "cache_set (new_RenderCache one_entry_options) [] ''a'' 0 = Some (Stored, empty_key_cache)"
    unfolding one_entry_options_def empty_key_cache_def by code_simp
  have "evictLeastRecentlyUsed empty_key_cache = empty_key_cache"
    by (simp add: evictLeastRecentlyUsed_def empty_key_cache_def lru_scan_def lru_step_def)
  then have "evict_loop empty_key_cache (estimateSize ''c'') = None"
    by (intro evict_loop_stuck) (simp_all add: empty_key_cache_def map_size_def)
  then have "cache_set empty_key_cache ''b'' ''c'' 1 = None"
    by (simp add: cache_set_def Let_def empty_key_cache_def estimateSize_def)
  with first show ?thesis by simp
qed

text \<open>With no empty key in the cache the eviction loop terminates.\<close>

lemma evict_loop_terminates:
  "[] \<notin> fst ` set (cache c) \<Longrightarrow> \<exists>r. evict_loop c hs = Some r"
proof (induction "length (cache c)" arbitrary: c rule: less_induct)
  case less
  show ?case
  proof (cases "maxSize c \<le> map_size (cache c) \<or> maxMemorySize c < currentMemorySize c + hs")
    case False
    then have "evict_loop c hs = Some (True, c)" by (subst evict_loop.simps) simp
    then show ?thesis by blast
  next
    case True
    show ?thesis
    proof (cases "cache c = []")
      case True
      with \<open>maxSize c \<le> map_size (cache c) \<or> maxMemorySize c < currentMemorySize c + hs\<close>
      have "evict_loop c hs = Some (False, c)" by (subst evict_loop.simps) (simp add: map_size_def)
      then show ?thesis by blast
    next
      case False
      from lru_fold_first_min [OF False] obtain pre p post where dec: "cache c = pre @ p # post"
        and res: "fold lru_step (cache c) (None, None) = (Some (fst p), Some (lastAccess (snd p)))"
        by blast
      from dec less.prems have key: "fst p \<noteq> []" by force
      from dec obtain e where look: "map_of (cache c) (fst p) = Some e"
        by (cases "map_of (cache c) (fst p)") (auto simp: map_of_eq_None_iff image_iff)
      let ?c1 = "evictLeastRecentlyUsed c"
      from res key look have c1: "cache ?c1 = map_delete (fst p) (cache c)"
        by (simp add: evictLeastRecentlyUsed_def lru_scan_def)
      have "length (filter (\<lambda>q. fst q \<noteq> fst p) (cache c)) < length (cache c)"
        using dec by (intro length_filter_less [of p]) auto
      with c1 have shorter: "length (cache ?c1) < length (cache c)" by (simp add: map_delete_def)
      from c1 less.prems have "[] \<notin> fst ` set (cache ?c1)" by (auto simp: map_delete_def)
      from less.hyps [OF shorter this] obtain r where "evict_loop ?c1 hs = Some r" by blast
      with True False have "evict_loop c hs = Some r" by (subst evict_loop.simps) (simp add: map_size_def)
      then show ?thesis by blast
    qed
  qed
qed

lemma cache_set_terminates:
  "[] \<notin> fst ` set (cache c) \<Longrightarrow> \<exists>r. cache_set c key h now = Some r"
  using evict_loop_terminates [of c "estimateSize h"]
  by (auto simp: cache_set_def Let_def split: bool.splits)

lemma cache_set_memory:
  assumes "evict_loop c (estimateSize h) = Some (True, c1)" and "5 * estimateSize h \<le> maxMemorySize c"
  shows "\<exists>c'. cache_set c k h now = Some (Stored, c') \<and>
           currentMemorySize c' =
             currentMemorySize c1
               - (case map_of (cache c1) k of Some oldEntry \<Rightarrow> estimateSize (html oldEntry) | None \<Rightarrow> 0)
               + estimateSize h"
  using assms by (simp add: cache_set_def Let_def split: option.splits)

text \<open>
  C10, as the code has it. A \<open>get\<close> or \<open>has\<close> leaves the tracked memory total as it was,
  also when it removes an expired entry. The total is lowered by \<open>delete\<close> (the size of the
  removed entry), \<open>clear\<close> (back to zero), \<open>cleanExpired\<close> (the sizes of all expired
  entries), the least-recently-used eviction of \<open>set\<close> (the size of the evicted entry), and
  by \<open>set\<close> itself when it stores under a key that is still present after the eviction
  loop (the size of the entry it replaces).
\<close>

theorem lazy_expiry_keeps_memory_total:
  "currentMemorySize (snd (cache_get c k now)) = currentMemorySize c \<and>
   currentMemorySize (snd (cache_has c k now)) = currentMemorySize c \<and>
   (\<forall>e. map_of (cache c) k = Some e \<and> now - timestamp e > ttl c \<longrightarrow>
        cache_get c k now = (None, c\<lparr>cache := map_delete k (cache c)\<rparr>) \<and>
        cache_has c k now = (False, c\<lparr>cache := map_delete k (cache c)\<rparr>)) \<and>
   (\<forall>e. map_of (cache c) k = Some e \<longrightarrow>
        cache_delete c k =
          c\<lparr>currentMemorySize := currentMemorySize c - estimateSize (html e),
            cache := map_delete k (cache c)\<rparr>) \<and>
   currentMemorySize (cache_clear c) = 0 \<and>
   currentMemorySize (snd (cleanExpired c now)) =
     currentMemorySize c -
       sum_list (map (\<lambda>p. estimateSize (html (snd p)))
                   (filter (\<lambda>p. now - timestamp (snd p) > ttl c) (cache c))) \<and>
   (\<forall>key e. lru_scan (cache c) = Some key \<and> key \<noteq> [] \<and> map_of (cache c) key = Some e \<longrightarrow>
        currentMemorySize (evictLeastRecentlyUsed c) = currentMemorySize c - estimateSize (html e)) \<and>
   (\<forall>h c1. evict_loop c (estimateSize h) = Some (True, c1) \<and> 5 * estimateSize h \<le> maxMemorySize c \<longrightarrow>
        (\<exists>c'. cache_set c k h now = Some (Stored, c') \<and>
           currentMemorySize c' =
             currentMemorySize c1
               - (case map_of (cache c1) k of Some oldEntry \<Rightarrow> estimateSize (html oldEntry) | None \<Rightarrow> 0)
               + estimateSize h))"
proof -
  have "currentMemorySize (snd (cleanExpired c now)) =
     currentMemorySize c -
       sum_list (map (\<lambda>p. estimateSize (html (snd p)))
                   (filter (\<lambda>p. now - timestamp (snd p) > ttl c) (cache c)))"
    by (simp add: cleanExpired_def cleanExpired_fold)
  moreover have "\<forall>e. map_of (cache c) k = Some e \<and> now - timestamp e > ttl c \<longrightarrow>
        cache_get c k now = (None, c\<lparr>cache := map_delete k (cache c)\<rparr>) \<and>
        cache_has c k now = (False, c\<lparr>cache := map_delete k (cache c)\<rparr>)"
    by (simp add: cache_get_def cache_has_def)
  moreover have "\<forall>e. map_of (cache c) k = Some e \<longrightarrow>
        cache_delete c k =
          c\<lparr>currentMemorySize := currentMemorySize c - estimateSize (html e),
            cache := map_delete k (cache c)\<rparr>"
    by (simp add: cache_delete_def)
  moreover have "\<forall>key e. lru_scan (cache c) = Some key \<and> key \<noteq> [] \<and> map_of (cache c) key = Some e \<longrightarrow>
        currentMemorySize (evictLeastRecentlyUsed c) = currentMemorySize c - estimateSize (html e)"
    by (simp add: evictLeastRecentlyUsed_def)
  moreover have "\<forall>h c1. evict_loop c (estimateSize h) = Some (True, c1) \<and> 5 * estimateSize h \<le> maxMemorySize c \<longrightarrow>
        (\<exists>c'. cache_set c k h now = Some (Stored, c') \<and>
           currentMemorySize c' =
             currentMemorySize c1
               - (case map_of (cache c1) k of Some oldEntry \<Rightarrow> estimateSize (html oldEntry) | None \<Rightarrow> 0)
               + estimateSize h)"
    using cache_set_memory by blast
  ultimately show ?thesis
    by (simp add: cache_get_memory cache_has_memory cache_clear_def)
qed

text \<open>
  The claim as stated lists \<open>delete\<close>, \<open>clear\<close>, \<open>cleanExpired\<close> and the eviction as the only
  places that subtract. Storing the empty string under the key of a four-character entry,
  in a cache with room to spare, runs no eviction and lowers the total from 108 to 100.
\<close>

theorem overwrite_subtracts_from_memory_total:
  "currentMemorySize overwrite_cache = 108 \<and>
   evict_loop overwrite_cache (estimateSize []) = Some (True, overwrite_cache) \<and>
   cache_set overwrite_cache ''k'' [] 1 =
     Some (Stored,
           overwrite_cache\<lparr>cache := [(''k'', \<lparr>html = [], timestamp = 1, accessCount = 1, lastAccess = 1\<rparr>)],
                           currentMemorySize := 100\<rparr>)"
  unfolding overwrite_cache_def by code_simp

theorem lazy_expiry_keeps_memory_total_witness:
  "map_of (cache stale_cache) ''k1'' \<noteq> None \<and>
   200 - timestamp (the (map_of (cache stale_cache) ''k1'')) > ttl stale_cache \<and>
   cache_get stale_cache ''k1'' 200 = (None, stale_cache\<lparr>cache := []\<rparr>) \<and>
   cache_has stale_cache ''k1'' 200 = (False, stale_cache\<lparr>cache := []\<rparr>) \<and>
   currentMemorySize (snd (cache_get stale_cache ''k1'' 200)) = 130 \<and>
   currentMemorySize (snd (cache_has stale_cache ''k1'' 200)) = 130 \<and>
   currentMemorySize (cache_delete stale_cache ''k1'') = 0 \<and>
   currentMemorySize (snd (cleanExpired stale_cache 200)) = 0 \<and>
   currentMemorySize (evictLeastRecentlyUsed stale_cache) = 0 \<and>
   evict_loop stale_cache (estimateSize []) = Some (True, stale_cache) \<and>
   map_option (\<lambda>r. currentMemorySize (snd r)) (cache_set stale_cache ''k1'' [] 50) = Some 100"
proof -
  define e where "e = \<lparr>html = ''<h1>Test 1</h1>'', timestamp = 0, accessCount = 1, lastAccess = 0\<rparr>"
  have look: "map_of (cache stale_cache) ''k1'' = Some e"
    by (simp add: stale_cache_def e_def)
  have old: "200 - timestamp e > ttl stale_cache"
    by (simp add: stale_cache_def e_def)
  have scan: "lru_scan (cache stale_cache) = Some ''k1''"
    by (simp add: stale_cache_def lru_scan_def lru_step_def)
  have del: "map_delete ''k1'' (cache stale_cache) = []"
    by (simp add: stale_cache_def map_delete_def)
  have cur: "currentMemorySize stale_cache = 130" and sz: "estimateSize (html e) = 130"
    and flt: "filter (\<lambda>p. 200 - timestamp (snd p) > ttl stale_cache) (cache stale_cache) = [(''k1'', e)]"
    by (simp_all add: stale_cache_def e_def estimateSize_def)
  have room: "evict_loop stale_cache (estimateSize []) = Some (True, stale_cache)"
    by (rule evict_loop_room) (simp_all add: stale_cache_def map_size_def estimateSize_def)
  have small: "5 * estimateSize [] \<le> maxMemorySize stale_cache"
    by (simp add: stale_cache_def estimateSize_def)
  note all = lazy_expiry_keeps_memory_total [of stale_cache "''k1''" 200]
  note at50 = lazy_expiry_keeps_memory_total [of stale_cache "''k1''" 50]
  from at50 room small obtain c' where "cache_set stale_cache ''k1'' [] 50 = Some (Stored, c')"
    and "currentMemorySize c' = currentMemorySize stale_cache
               - (case map_of (cache stale_cache) ''k1'' of Some oldEntry \<Rightarrow> estimateSize (html oldEntry) | None \<Rightarrow> 0)
               + estimateSize []"
    by blast
  with look cur sz have stored: "map_option (\<lambda>r. currentMemorySize (snd r)) (cache_set stale_cache ''k1'' [] 50) = Some 100"
    by (simp add: estimateSize_def)
  from all look old have g: "cache_get stale_cache ''k1'' 200 = (None, stale_cache\<lparr>cache := map_delete ''k1'' (cache stale_cache)\<rparr>)"
    and h: "cache_has stale_cache ''k1'' 200 = (False, stale_cache\<lparr>cache := map_delete ''k1'' (cache stale_cache)\<rparr>)"
    by blast+
  from all look have d: "cache_delete stale_cache ''k1'' =
          stale_cache\<lparr>currentMemorySize := currentMemorySize stale_cache - estimateSize (html e),
            cache := map_delete ''k1'' (cache stale_cache)\<rparr>"
    by blast
  from all have ce: "currentMemorySize (snd (cleanExpired stale_cache 200)) =
     currentMemorySize stale_cache -
       sum_list (map (\<lambda>p. estimateSize (html (snd p)))
                   (filter (\<lambda>p. 200 - timestamp (snd p) > ttl stale_cache) (cache stale_cache)))"
    by blast
  from all scan look have ev: "currentMemorySize (evictLeastRecentlyUsed stale_cache)
      = currentMemorySize stale_cache - estimateSize (html e)"
    by auto
  from g h d ce ev look old del cur sz flt room stored show ?thesis by simp
qed

section \<open>Properties of scroll synchronisation\<close>

text \<open>
  The double product at the fractions the surface reports. For \<open>scrollTop\<close> 580 of a
  \<open>maxScroll\<close> of 2000 the fraction is the double nearest 0.29, its product with 100 is
  just below 29, and the floor is 28; likewise 0.3 of 10 rounds up to 3.
\<close>

lemma double_products:
  "targetLine_of (double_round (580 / 2000)) None 101 = 28 \<and>
   targetLine_of (double_round (1140 / 2000)) None 101 = 56 \<and>
   targetLine_of (double_round (1160 / 2000)) None 101 = 57 \<and>
   targetLine_of (double_round (3 / 10)) None 11 = 3 \<and>
   targetLine_of (1 / 2) None 101 = 50"
  by code_simp

text \<open>
  C5. When a scroll from the surface is handled (the active editor shows the managed
  document, scroll sync is enabled and the manager is not in an editor-originated
  scroll), exactly one \<open>revealRange\<close> at the top is issued. Its target is the supplied
  line when there is one, otherwise the floor of the double-precision product
  \<open>percent * (totalLines - 1)\<close>, in both cases clamped into \<open>[0, totalLines - 1]\<close>; a
  document has at least one line. Fraction \<open>1/2\<close> on a 101-line document with no line
  gives line 50.
\<close>

theorem surface_scroll_moves_source_to_clamped_line:
  assumes "activeTextEditor host = Some editor"
    and "uri (document editor) = uri (managedDocument mgr)"
    and "enableScrollSync (configuration host)"
    and "\<not> isScrollingFromEditor mgr"
    and "1 \<le> lineCount (document editor)"
  shows "\<exists>target.
           map_option revealedAtTop (activeTextEditor (fst (handleWebviewScroll host mgr now percent line)))
             = Some (revealedAtTop editor @ [target]) \<and>
           target = max 0 (min (case line of Some l \<Rightarrow> l
                                 | None \<Rightarrow> of_int \<lfloor>double_round (percent * of_int (lineCount (document editor) - 1))\<rfloor>)
                               (of_int (lineCount (document editor) - 1))) \<and>
           0 \<le> target \<and> target \<le> of_int (lineCount (document editor) - 1) \<and>
           (percent = 1 / 2 \<and> line = None \<and> lineCount (document editor) = 101 \<longrightarrow> target = 50)"
proof -
  let ?n = "lineCount (document editor)"
  let ?t = "targetLine_of percent line ?n"
  have moved: "map_option revealedAtTop (activeTextEditor (fst (handleWebviewScroll host mgr now percent line)))
             = Some (revealedAtTop editor @ [?t])"
    using assms(1-4) by (simp add: handleWebviewScroll_def Let_def)
  have formula: "?t = max 0 (min (case line of Some l \<Rightarrow> l
                                 | None \<Rightarrow> of_int \<lfloor>double_round (percent * of_int (?n - 1))\<rfloor>) (of_int (?n - 1)))"
    by (simp add: targetLine_of_def)
  have lower: "0 \<le> ?t" by (simp add: targetLine_of_def)
  have "(0::rat) \<le> of_int (?n - 1)" using assms(5) by simp
  then have upper: "?t \<le> of_int (?n - 1)" unfolding targetLine_of_def Let_def by (simp add: max_def min_def)
  have "targetLine_of (1 / 2) None 101 = 50"
    using double_products by blast
  then have half: "percent = 1 / 2 \<and> line = None \<and> ?n = 101 \<longrightarrow> ?t = 50"
    by (intro impI, elim conjE) (simp only:)
  from moved formula lower upper half show ?thesis by blast
qed

text \<open>
  The end-to-end scenario of the specification: fraction 0.5, 101 lines, no line.
\<close>

theorem surface_scroll_moves_source_to_clamped_line_witness:
  "activeTextEditor quiet_host \<noteq> None \<and>
   uri (document (the (activeTextEditor quiet_host))) = uri (managedDocument (new_ScrollSyncManager long_document)) \<and>
   enableScrollSync (configuration quiet_host) \<and>
   \<not> isScrollingFromEditor (new_ScrollSyncManager long_document) \<and>
   1 \<le> lineCount (document (the (activeTextEditor quiet_host))) \<and>
   map_option revealedAtTop
     (activeTextEditor (fst (handleWebviewScroll quiet_host (new_ScrollSyncManager long_document) 0 (1 / 2) None)))
     = Some [50]"
proof -
  define editor where "editor = \<lparr> document = long_document, visibleRanges = [0::int], revealedAtTop = ([]::rat list) \<rparr>"
  have h1: "activeTextEditor quiet_host = Some editor" by (simp add: quiet_host_def editor_def)
  have h2: "uri (document editor) = uri (managedDocument (new_ScrollSyncManager long_document))"
    by (simp add: editor_def new_ScrollSyncManager_def)
  have h3: "enableScrollSync (configuration quiet_host)" by (simp add: quiet_host_def default_config_def)
  have h4: "\<not> isScrollingFromEditor (new_ScrollSyncManager long_document)" by (simp add: new_ScrollSyncManager_def)
  have h5: "1 \<le> lineCount (document editor)" by (simp add: editor_def long_document_def)
  have n: "lineCount (document editor) = 101" by (simp add: editor_def long_document_def)
  have old: "revealedAtTop editor = []" by (simp add: editor_def)
  from surface_scroll_moves_source_to_clamped_line [OF h1 h2 h3 h4 h5, of 0 "1 / 2" None] n old
  have "map_option revealedAtTop
     (activeTextEditor (fst (handleWebviewScroll quiet_host (new_ScrollSyncManager long_document) 0 (1 / 2) None)))
     = Some [50]" by auto
  with h1 h2 h3 h4 h5 show ?thesis by simp
qed

section \<open>Properties of the message protocol\<close>

lemma is_string_typeof: "is_string v \<longleftrightarrow> js_typeof v = ''string''"
  by (cases v) (simp_all add: is_string_def)

lemma any_number_typeof: "number_such any_number v \<longleftrightarrow> js_typeof v = ''number''"
  by (cases v) (simp_all add: number_such_def any_number_def)

lemma number_such_typeof: "number_such ok v \<Longrightarrow> js_typeof v = ''number''"
  by (cases v) (simp_all add: number_such_def)

lemma to_surface_validator_shape:
  "isExtensionToWebviewMessage m \<longleftrightarrow> shape_to_surface any_number any_number m"
  by (cases m) (auto simp: isExtensionToWebviewMessage_def Let_def is_string_typeof any_number_typeof)

lemma to_orchestrator_validator_shape:
  "isWebviewToExtensionMessage m \<longleftrightarrow> shape_to_orchestrator any_number m"
  by (cases m) (auto simp: isWebviewToExtensionMessage_def Let_def is_string_typeof any_number_typeof)

lemma shape_to_surface_relax:
  "shape_to_surface percent_ok line_ok m \<Longrightarrow> shape_to_surface any_number any_number m"
  by (cases m) (auto simp: Let_def any_number_typeof dest: number_such_typeof)

lemma shape_to_orchestrator_relax:
  "shape_to_orchestrator line_ok m \<Longrightarrow> shape_to_orchestrator any_number m"
  by (cases m) (auto simp: Let_def any_number_typeof dest: number_such_typeof)

text \<open>
  C7, as the code has it. Each validator accepts exactly the objects whose \<open>type\<close> is one
  of its kinds and whose required fields have the right primitive type, where a scroll
  fraction and a line are only asked to be numbers. So every message with the shape of the
  protocol table is accepted, in both directions. A message from the surface that
  \<open>isWebviewToExtensionMessage\<close> rejects is not dispatched: \<open>handleWebviewMessage\<close> logs
  a warning and returns with the host and the provider otherwise unchanged.
\<close>

theorem validator_shapes_and_rejection:
  "(isExtensionToWebviewMessage m \<longleftrightarrow> shape_to_surface any_number any_number m) \<and>
   (isWebviewToExtensionMessage m \<longleftrightarrow> shape_to_orchestrator any_number m) \<and>
   (table_shape_to_surface m \<longrightarrow> isExtensionToWebviewMessage m) \<and>
   (table_shape_to_orchestrator m \<longrightarrow> isWebviewToExtensionMessage m) \<and>
   (\<not> isWebviewToExtensionMessage m \<longrightarrow>
      handleWebviewMessage co clk now host pr m =
        Some (host\<lparr>console := console host @ [WarnInvalidMessage m]\<rparr>, pr))"
proof -
  have "table_shape_to_surface m \<longrightarrow> isExtensionToWebviewMessage m"
    using shape_to_surface_relax [of unit_interval is_integer m]
    by (simp add: table_shape_to_surface_def to_surface_validator_shape)
  moreover have "table_shape_to_orchestrator m \<longrightarrow> isWebviewToExtensionMessage m"
    using shape_to_orchestrator_relax [of is_integer m]
    by (simp add: table_shape_to_orchestrator_def to_orchestrator_validator_shape)
  moreover have "\<not> isWebviewToExtensionMessage m \<longrightarrow>
      handleWebviewMessage co clk now host pr m =
        Some (host\<lparr>console := console host @ [WarnInvalidMessage m]\<rparr>, pr)"
    by (simp add: handleWebviewMessage_def)
  ultimately show ?thesis
    using to_surface_validator_shape [of m] to_orchestrator_validator_shape [of m] by blast
qed

text \<open>
  The claim as stated asks for acceptance exactly on the table's shapes. The validator
  makes no range or integrality check: it accepts a \<open>scrollFromEditor\<close> message with
  fraction 7 and line 3/2, which the table (a fraction in \<open>[0, 1]\<close>, an integer line)
  excludes.
\<close>

theorem validator_accepts_outside_table:
  "isExtensionToWebviewMessage stray_scroll_message \<and> \<not> table_shape_to_surface stray_scroll_message"
  by (simp add: stray_scroll_message_def isExtensionToWebviewMessage_def table_shape_to_surface_def
        number_such_def unit_interval_def)

theorem validator_shapes_and_rejection_witness:
  "table_shape_to_surface (createScrollFromEditorMessage (1 / 2) 50) \<and>
   isExtensionToWebviewMessage (createScrollFromEditorMessage (1 / 2) 50) \<and>
   table_shape_to_orchestrator surface_scroll_message \<and>
   isWebviewToExtensionMessage surface_scroll_message \<and>
   \<not> isWebviewToExtensionMessage malformed_scroll_message \<and>
   handleWebviewMessage demo_collaborators (instant 0) 0 quiet_host idle_provider malformed_scroll_message =
     Some (quiet_host\<lparr>console := [WarnInvalidMessage malformed_scroll_message]\<rparr>, idle_provider)"
proof -
  have a: "table_shape_to_surface (createScrollFromEditorMessage (1 / 2) 50)"
    by (simp add: createScrollFromEditorMessage_def table_shape_to_surface_def number_such_def
          unit_interval_def is_integer_def)
  have b: "table_shape_to_orchestrator surface_scroll_message"
    by (simp add: surface_scroll_message_def table_shape_to_orchestrator_def number_such_def any_number_def)
  have c: "\<not> isWebviewToExtensionMessage malformed_scroll_message"
    by (simp add: malformed_scroll_message_def isWebviewToExtensionMessage_def)
  have d: "console quiet_host = []" by (simp add: quiet_host_def)
  from validator_shapes_and_rejection [of "createScrollFromEditorMessage (1 / 2) 50" demo_collaborators "instant 0" 0 quiet_host idle_provider] a
  have a': "isExtensionToWebviewMessage (createScrollFromEditorMessage (1 / 2) 50)" by blast
  from validator_shapes_and_rejection [of surface_scroll_message demo_collaborators "instant 0" 0 quiet_host idle_provider] b
  have b': "isWebviewToExtensionMessage surface_scroll_message" by blast
  from validator_shapes_and_rejection [of malformed_scroll_message demo_collaborators "instant 0" 0 quiet_host idle_provider] c
  have "handleWebviewMessage demo_collaborators (instant 0) 0 quiet_host idle_provider malformed_scroll_message =
     Some (quiet_host\<lparr>console := console quiet_host @ [WarnInvalidMessage malformed_scroll_message]\<rparr>, idle_provider)"
    by blast
  with a a' b b' c d show ?thesis by simp
qed

section \<open>Properties of the incremental update\<close>

text \<open>
  Starting from the empty preview element, the first update sets the content directly.
  When the browser's serialisation of that content is about as long as the html, the second
  update of the same html goes through \<open>morphDom\<close> on the preview element itself, against
  a temporary \<open>div\<close> that has no attributes: the preview element loses its \<open>id\<close>.
\<close>

lemma second_update_morphs_container:
  assumes "parseHTML cd h \<noteq> []"
    and "\<not> 2 * \<bar>int (length h) - int (length (serializeHTML cd (parseHTML cd h)))\<bar>
            > max (int (length (serializeHTML cd (parseHTML cd h)))) (int (length h))"
  shows "updatePreviewContent cd initial_preview h = Element ''div'' [(''id'', ''preview'')] (parseHTML cd h)"
    and "\<exists>children. updatePreviewContent cd (updatePreviewContent cd initial_preview h) h
           = Element ''div'' [] children"
proof -
  show first: "updatePreviewContent cd initial_preview h = Element ''div'' [(''id'', ''preview'')] (parseHTML cd h)"
    by (simp add: initial_preview_def)
  have "morphAttributes [(''id'', ''preview'')] [] = []"
    by (simp add: morphAttributes_def removeOldAttributes_def)
  with assms show "\<exists>children. updatePreviewContent cd (updatePreviewContent cd initial_preview h) h
           = Element ''div'' [] children"
    unfolding first by (simp add: Let_def)
qed

text \<open>
  C8. Applying the same html twice is not the identity the second time: from the initial
  preview element, the html \<open>Hello\<close> gives \<open><div id="preview">Hello</div>\<close> after the first
  application and \<open><div>Hello</div>\<close> after the second.
\<close>

theorem second_update_changes_tree:
  "updatePreviewContent plain_text_codec initial_preview ''Hello''
     = Element ''div'' [(''id'', ''preview'')] [TextNode ''Hello''] \<and>
   updatePreviewContent plain_text_codec
       (updatePreviewContent plain_text_codec initial_preview ''Hello'') ''Hello''
     = Element ''div'' [] [TextNode ''Hello'']"
  by (simp add: initial_preview_def plain_text_codec_def morphAttributes_def removeOldAttributes_def)

section \<open>Properties of the preview provider\<close>

lemma map_set_keys: "fst ` set (map_set k v es) = insert k (fst ` set es)"
proof (induction es)
  case Nil
  show ?case by simp
next
  case (Cons p es)
  obtain k' v' where p: "p = (k', v')" by (cases p)
  show ?case
  proof (cases "k' = k")
    case True
    then show ?thesis by (simp add: p)
  next
    case False
    then show ?thesis using Cons.IH by (simp add: p insert_commute)
  qed
qed

lemma map_of_Some_key: "map_of es k = Some v \<Longrightarrow> k \<in> fst ` set es"
  by (induction es) (auto split: if_splits)

lemma cache_get_keys: "fst ` set (cache (snd (cache_get c key now))) \<subseteq> fst ` set (cache c)"
  by (auto simp: cache_get_def map_delete_def map_set_keys split: option.splits dest: map_of_Some_key)

lemma engineOptions_title: "engineOptions (host\<lparr>panelTitle := t\<rparr>) doc = engineOptions host doc"
  by (simp add: engineOptions_def)

lemma doUpdatePreview_pushes:
  assumes "panel pr" and "currentDocument pr = Some doc"
    and "[] \<notin> fst ` set (cache (providerCache pr))"
  shows "\<exists>host' pr'.
     doUpdatePreview co clk host pr = Some (host', pr') \<and>
     currentDocument pr' = Some doc \<and> updateTimeout pr' = updateTimeout pr \<and>
     posted host' = posted host @
       [case truthy_html (fst (cache_get (providerCache pr) (generateKey co (engineOptions host doc)) (tGet clk))) of
          Some h \<Rightarrow> createUpdateMessage h
        | None \<Rightarrow> (case outcome (render co (engineOptions host doc)) of
                     Inr h \<Rightarrow> createUpdateMessage h
                   | Inl errorMessage \<Rightarrow> createErrorMessage errorMessage)]"
proof -
  let ?options = "engineOptions host doc"
  let ?key = "generateKey co ?options"
  let ?looked = "cache_get (providerCache pr) ?key (tGet clk)"
  show ?thesis
  proof (cases "truthy_html (fst ?looked)")
    case (Some h)
    with assms(1,2) show ?thesis
      by (simp add: doUpdatePreview_def Let_def postUpdate_def)
  next
    case None
    show ?thesis
    proof (cases "outcome (render co ?options)")
      case (Inl errorMessage)
      with None assms(1,2) show ?thesis
        by (simp add: doUpdatePreview_def Let_def)
    next
      case (Inr h)
      from cache_get_keys [of "providerCache pr" ?key "tGet clk"] assms(3)
      have "[] \<notin> fst ` set (cache (snd ?looked))" by blast
      from cache_set_terminates [OF this, of ?key h "tSet clk"]
      obtain stored where "cache_set (snd ?looked) ?key h (tSet clk) = Some stored" by blast
      with None Inr assms(1,2) show ?thesis
        by (simp add: doUpdatePreview_def Let_def postUpdate_def split: option.splits)
    qed
  qed
qed

text \<open>
  C6, as the code has it. When the panel exists (and no cache key is empty, as is the case
  for digests), \<open>switchDocument\<close> returns having made the new document current and having
  posted, within the call and through no timer, exactly one message for it: an update with
  the cached html for the new document's text and options if there is a non-empty one, else
  an update with the html just rendered, or the error message if rendering failed. The
  pending debounce timer is left as it was.
\<close>

theorem switchDocument_pushes_at_once:
  assumes "panel pr" and "[] \<notin> fst ` set (cache (providerCache pr))"
  shows "\<exists>host' pr'.
     switchDocument co clk host pr doc = Some (host', pr') \<and>
     currentDocument pr' = Some doc \<and> updateTimeout pr' = updateTimeout pr \<and>
     posted host' = posted host @
       [case truthy_html (fst (cache_get (providerCache pr) (generateKey co (engineOptions host doc)) (tGet clk))) of
          Some h \<Rightarrow> createUpdateMessage h
        | None \<Rightarrow> (case outcome (render co (engineOptions host doc)) of
                     Inr h \<Rightarrow> createUpdateMessage h
                   | Inl errorMessage \<Rightarrow> createErrorMessage errorMessage)]"
proof -
  let ?pr1 = "pr\<lparr>currentDocument := Some doc, scrollSyncManager := Some (new_ScrollSyncManager doc)\<rparr>"
  let ?host1 = "host\<lparr>panelTitle := fileName doc\<rparr>"
  have "panel ?pr1" "currentDocument ?pr1 = Some doc" "[] \<notin> fst ` set (cache (providerCache ?pr1))"
    using assms by simp_all
  from doUpdatePreview_pushes [OF this, of co clk ?host1]
  have "\<exists>host' pr'.
     doUpdatePreview co clk ?host1 ?pr1 = Some (host', pr') \<and>
     currentDocument pr' = Some doc \<and> updateTimeout pr' = updateTimeout pr \<and>
     posted host' = posted host @
       [case truthy_html (fst (cache_get (providerCache pr) (generateKey co (engineOptions host doc)) (tGet clk))) of
          Some h \<Rightarrow> createUpdateMessage h
        | None \<Rightarrow> (case outcome (render co (engineOptions host doc)) of
                     Inr h \<Rightarrow> createUpdateMessage h
                   | Inl errorMessage \<Rightarrow> createErrorMessage errorMessage)]"
    unfolding engineOptions_title by simp
  moreover have "switchDocument co clk host pr doc = doUpdatePreview co clk ?host1 ?pr1"
    using assms(1) by (simp add: switchDocument_def)
  ultimately show ?thesis by simp
qed

text \<open>
  The claim as stated says the pending timer is cancelled. A change notification at time 0
  arms the timer for time 100; switching documents at time 40 leaves it pending, and when
  it fires it renders and posts the new document a second time.
\<close>

theorem switchDocument_leaves_timer_pending:
  "updateTimeout (updatePreview idle_provider 0 None) = Some 100 \<and>
   map_option (\<lambda>r. updateTimeout (snd r))
     (switchDocument demo_collaborators (instant 40) quiet_host (updatePreview idle_provider 0 None) other_document)
     = Some (Some 100) \<and>
   map_option (\<lambda>r. posted (fst r))
     (case switchDocument demo_collaborators (instant 40) quiet_host (updatePreview idle_provider 0 None) other_document of
        None \<Rightarrow> None
      | Some r \<Rightarrow> updateTimeout_fired demo_collaborators (instant 100) (fst r) (snd r))
     = Some [createUpdateMessage ''<p>- item</p>'', createUpdateMessage ''<p>- item</p>'']"
  unfolding idle_provider_def quiet_host_def other_document_def long_document_def default_config_def
    demo_collaborators_def instant_def
  by code_simp

theorem switchDocument_pushes_at_once_witness:
  "panel idle_provider \<and> [] \<notin> fst ` set (cache (providerCache idle_provider)) \<and>
   map_option (\<lambda>r. (currentDocument (snd r), updateTimeout (snd r), posted (fst r)))
     (switchDocument demo_collaborators (instant 40) quiet_host idle_provider other_document)
     = Some (Some other_document, None, [createUpdateMessage ''<p>- item</p>''])"
proof -
  have h1: "panel idle_provider" by (simp add: idle_provider_def)
  have h2: "[] \<notin> fst ` set (cache (providerCache idle_provider))"
    by (simp add: idle_provider_def new_RenderCache_def)
  have miss: "truthy_html (fst (cache_get (providerCache idle_provider)
                 (generateKey demo_collaborators (engineOptions quiet_host other_document)) (tGet (instant 40)))) = None"
    by (simp add: idle_provider_def new_RenderCache_def cache_get_def truthy_html_def)
  have rendered: "outcome (render demo_collaborators (engineOptions quiet_host other_document)) = Inr ''<p>- item</p>''"
    by (simp add: demo_collaborators_def engineOptions_def other_document_def)
  have before: "posted quiet_host = []" "updateTimeout idle_provider = None"
    by (simp_all add: quiet_host_def idle_provider_def)
  from switchDocument_pushes_at_once [OF h1 h2, of demo_collaborators "instant 40" quiet_host other_document]
    miss rendered before h1 h2
  show ?thesis by auto
qed

section \<open>Properties of the two sides together\<close>

text \<open>
  After a scroll from the editor has been applied the flag is set, and while it is set a
  \<open>scroll\<close> event on the container starts no timer and posts nothing.
\<close>

lemma echo_ignored_while_flag_set:
  "surfaceScrollingFromEditor (handleScrollFromEditor s now percent line) \<and>
   (surfaceScrollingFromEditor s \<longrightarrow> containerScrollListener s later = s)"
  by (simp add: handleScrollFromEditor_def containerScrollListener_def Let_def)

text \<open>
  C4. The echo of an applied source scroll is not always suppressed. The editor is scrolled
  at time 0 and again at time 140; the two scrolls are dispatched and applied on the surface
  at 100 and 240. The echo of the first (at 116) is ignored. The reset timer of the first
  application fires at 250 and clears the flag, 10 ms after the second application; the echo
  of the second application arrives at 256, inside its 150 ms window, is taken for a user
  scroll, and at 356 comes back as a \<open>scroll\<close> message that moves the source view:
  a \<open>revealRange\<close> to line 50, or to line 25, away from where the user had scrolled, when
  the content has grown in the meantime.
\<close>

theorem echo_of_second_scroll_moves_source:
  "map_option (\<lambda>w. (surfaceScrollTimeout (worldSurface w), outbox (worldSurface w), source_movements w))
     (world_run demo_collaborators plain_text_codec initial_world first_scroll_and_echo)
     = Some (None, [], []) \<and>
   map_option (\<lambda>w. (outbox (worldSurface w), source_movements w))
     (world_run demo_collaborators plain_text_codec initial_world (first_scroll_and_echo @ second_scroll_and_echo))
     = Some ([JObject [(''type'', JString ''scroll''), (''percent'', JNumber (1 / 2))]], [50]) \<and>
   map_option (\<lambda>w. (outbox (worldSurface w), source_movements w))
     (world_run demo_collaborators plain_text_codec initial_world (first_scroll_and_echo @ second_scroll_echo_and_growth))
     = Some ([JObject [(''type'', JString ''scroll''), (''percent'', JNumber (1 / 4))]], [25])"
  unfolding initial_world_def initial_surface_def first_scroll_and_echo_def second_scroll_and_echo_def
    second_scroll_echo_and_growth_def idle_provider_def quiet_host_def
    long_document_def default_config_def demo_collaborators_def plain_text_codec_def initial_preview_def
  by code_simp

end
